theory Spec2Isabelle
  imports Main "HOL-Library.Word" "HOL-Library.Sublist"
begin

unbundle bit_operations_syntax

section \<open>nsjail: C strings and the command-line helpers (cmdline.c)\<close>

text \<open>
  A C string is modelled by the list of its characters before the terminating NUL;
  reading the string at an index returns the NUL once the index reaches the end.
  A NUL inside the list ends the string for every C function that scans it, which
  is what \<open>c_str\<close> computes.
\<close>

definition NUL :: char where
  "NUL = CHR 0x00"

definition c_index :: "string \<Rightarrow> nat \<Rightarrow> char" where
  "c_index s i = (if i < length s then s ! i else NUL)"

definition c_str :: "string \<Rightarrow> string" where
  "c_str s = takeWhile (\<lambda>c. c \<noteq> NUL) s"

text \<open>\<^verbatim>\<open>isdigit\<close> of the C locale: the ten characters '0' .. '9'.\<close>

definition isdigit :: "char \<Rightarrow> bool" where
  "isdigit c = (48 \<le> (of_char c :: nat) \<and> (of_char c :: nat) \<le> 57)"

text \<open>
  \<^verbatim>\<open>
  static bool cmdlineIsANumber(const char *s)
  {
          for (int i = 0; s[i]; s++) {
                  if (!isdigit(s[i]) && s[i] != 'x') {
                          return false;
                  }
          }
          return true;
  }
  \<close>
  The loop increments the pointer \<open>s\<close>, never the index \<open>i\<close>: the model keeps both,
  the pointer increment being \<open>tl\<close>.
\<close>

function cmdlineIsANumber_loop :: "nat \<Rightarrow> string \<Rightarrow> bool" where
  "cmdlineIsANumber_loop i s =
     (if c_index s i = NUL then True
      else if \<not> isdigit (c_index s i) \<and> c_index s i \<noteq> CHR ''x'' then False
      else cmdlineIsANumber_loop i (tl s))"
  by pat_completeness auto
termination
proof (relation "measure (\<lambda>(i, s). length s)")
  show "wf (measure (\<lambda>(i, s). length s))"
    by simp
next
  fix i :: nat and s :: string
  assume "c_index s i \<noteq> NUL"
  then have "s \<noteq> []"
    by (auto simp: c_index_def)
  then show "((i, tl s), (i, s)) \<in> measure (\<lambda>(i, s). length s)"
    by (cases s) simp_all
qed

declare cmdlineIsANumber_loop.simps [simp del]

definition cmdlineIsANumber :: "string \<Rightarrow> bool" where
  "cmdlineIsANumber s = cmdlineIsANumber_loop 0 s"

text \<open>
  \<^verbatim>\<open>strcasecmp\<close> of the C library: the strings are compared character by character
  after folding the upper-case letters A .. Z to lower case; the result is the
  difference of the first two folded characters that differ, 0 when there is none.
\<close>

definition tolower :: "char \<Rightarrow> char" where
  "tolower c =
     (if 65 \<le> (of_char c :: nat) \<and> (of_char c :: nat) \<le> 90
      then char_of ((of_char c :: nat) + 32) else c)"

fun strcasecmp_loop :: "string \<Rightarrow> string \<Rightarrow> int" where
  "strcasecmp_loop [] [] = 0"
| "strcasecmp_loop [] (b # bs) = - of_char (tolower b)"
| "strcasecmp_loop (a # as) [] = of_char (tolower a)"
| "strcasecmp_loop (a # as) (b # bs) =
     (if tolower a = tolower b then strcasecmp_loop as bs
      else of_char (tolower a) - of_char (tolower b))"

definition strcasecmp :: "string \<Rightarrow> string \<Rightarrow> int" where
  "strcasecmp a b = strcasecmp_loop (c_str a) (c_str b)"

text \<open>
  \<^verbatim>\<open>strtoul(s, NULL, 0)\<close> of the C library on a platform whose \<^verbatim>\<open>unsigned long\<close>
  has 64 bits: white space is skipped, a sign is read, the base is 16 after a prefix
  0x or 0X that a hexadecimal digit follows, 8 after a leading 0, and 10 otherwise; the
  longest run of digits of that base is converted. A value beyond \<^verbatim>\<open>ULONG_MAX\<close>
  gives \<^verbatim>\<open>ULONG_MAX\<close> and sets \<^verbatim>\<open>errno\<close> to \<^verbatim>\<open>ERANGE\<close>; otherwise
  \<^verbatim>\<open>errno\<close> keeps the value it had. The function returns the value and
  \<^verbatim>\<open>errno\<close> after the call.
\<close>

definition ULONG_MAX :: "64 word" where
  "ULONG_MAX = - 1"

definition ERANGE :: int where
  "ERANGE = 34"

definition isspace :: "char \<Rightarrow> bool" where
  "isspace c = ((of_char c :: nat) = 32 \<or> (9 \<le> (of_char c :: nat) \<and> (of_char c :: nat) \<le> 13))"

definition digit_val :: "char \<Rightarrow> nat option" where
  "digit_val c =
     (let n = (of_char c :: nat) in
      if 48 \<le> n \<and> n \<le> 57 then Some (n - 48)
      else if 97 \<le> n \<and> n \<le> 122 then Some (n - 87)
      else if 65 \<le> n \<and> n \<le> 90 then Some (n - 55)
      else None)"

fun strtoul_digits :: "nat \<Rightarrow> string \<Rightarrow> nat \<Rightarrow> nat" where
  "strtoul_digits b [] acc = acc"
| "strtoul_digits b (c # cs) acc =
     (case digit_val c of
        None \<Rightarrow> acc
      | Some d \<Rightarrow> if d < b then strtoul_digits b cs (acc * b + d) else acc)"

definition strtoul_sign :: "string \<Rightarrow> bool \<times> string" where
  "strtoul_sign s =
     (case s of
        [] \<Rightarrow> (False, s)
      | c # r \<Rightarrow> if c = CHR ''-'' then (True, r) else if c = CHR ''+'' then (False, r)
                 else (False, s))"

definition strtoul_base :: "string \<Rightarrow> nat \<times> string" where
  "strtoul_base s =
     (case s of
        [] \<Rightarrow> (10, s)
      | c # r \<Rightarrow>
          if c \<noteq> CHR ''0'' then (10, s)
          else (case r of
                  x # h # t \<Rightarrow>
                    if (x = CHR ''x'' \<or> x = CHR ''X'')
                       \<and> (case digit_val h of None \<Rightarrow> False | Some d \<Rightarrow> d < 16)
                    then (16, h # t) else (8, s)
                | _ \<Rightarrow> (8, s)))"

definition strtoul0 :: "string \<Rightarrow> int \<Rightarrow> 64 word \<times> int" where
  "strtoul0 s errno0 =
     (let (neg, s2) = strtoul_sign (dropWhile isspace (c_str s));
          (b, s3) = strtoul_base s2;
          n = strtoul_digits b s3 0
      in if n > unat ULONG_MAX then (ULONG_MAX, ERANGE)
         else (if neg then - of_nat n else of_nat n, errno0))"

subsection \<open>Resource limits\<close>

datatype resource =
  RLIMIT_AS | RLIMIT_CORE | RLIMIT_CPU | RLIMIT_FSIZE | RLIMIT_NOFILE | RLIMIT_NPROC
  | RLIMIT_STACK

record rlimit =
  rlim_cur :: "64 word"
  rlim_max :: "64 word"

text \<open>
  What the command-line parser reads from the system: \<^verbatim>\<open>getrlimit\<close> (\<open>None\<close> when it
  returns -1) and the value of \<^verbatim>\<open>errno\<close> before the call.
\<close>

record cmdline_env =
  getrlimit :: "resource \<Rightarrow> rlimit option"
  errno :: int

text \<open>
  Modelled from the spec: the macros \<^verbatim>\<open>LOG_F\<close> and \<^verbatim>\<open>PLOG_F\<close> of log.h, which is
  not among the sources. A config error is reported and the process exits non-zero
  before any child is spawned: the call does not return. The value names the format
  string of the message.
\<close>

datatype fatal = Fatal string

text \<open>
  \<^verbatim>\<open>
  rlim_t cmdlineParseRLimit(int res, const char *optarg, unsigned long mul)
  {
          struct rlimit cur;
          if (getrlimit(res, &cur) == -1) {
                  PLOG_F("getrlimit(%d)", res);
          }
          if (strcasecmp(optarg, "max") == 0) {
                  return cur.rlim_max;
          }
          if (strcasecmp(optarg, "def") == 0) {
                  return cur.rlim_cur;
          }
          if (cmdlineIsANumber(optarg) == false) {
                  LOG_F("RLIMIT %d needs a numeric or 'max'/'def' value ('%s' provided)", res, optarg);
          }
          rlim_t val = strtoul(optarg, NULL, 0) * mul;
          if (val == ULONG_MAX && errno != 0) {
                  PLOG_F("strtoul('%s', 0)", optarg);
          }
          return val;
  }
  \<close>
\<close>

definition cmdlineParseRLimit ::
  "cmdline_env \<Rightarrow> resource \<Rightarrow> string \<Rightarrow> 64 word \<Rightarrow> fatal + 64 word" where
  "cmdlineParseRLimit env res optarg mul =
     (case getrlimit env res of
        None \<Rightarrow> Inl (Fatal ''getrlimit(%d)'')
      | Some cur \<Rightarrow>
          if strcasecmp optarg ''max'' = 0 then Inr (rlim_max cur)
          else if strcasecmp optarg ''def'' = 0 then Inr (rlim_cur cur)
          else if cmdlineIsANumber optarg = False then
            Inl (Fatal ''RLIMIT %d needs a numeric or 'max'/'def' value ('%s' provided)'')
          else
            (let (n, errno1) = strtoul0 optarg (errno env);
                 val = n * mul
             in if val = ULONG_MAX \<and> errno1 \<noteq> 0 then Inl (Fatal ''strtoul('%s', 0)'')
                else Inr val))"

section \<open>The configuration and the roster (common.h)\<close>

text \<open>
  \<^verbatim>\<open>struct sockaddr_in6\<close>; \<open>sin6_addr\<close> holds the 16 bytes of \<^verbatim>\<open>s6_addr\<close>, and
  \<open>sin6_port\<close> the port in network byte order.
\<close>

record sockaddr_in6 =
  sin6_family :: "16 word"
  sin6_port :: "16 word"
  sin6_flowinfo :: "32 word"
  sin6_addr :: "8 word list"
  sin6_scope_id :: "32 word"

text \<open>
  \<^verbatim>\<open>struct pids_t\<close>, one record of the roster. \<^verbatim>\<open>pid_t\<close> is an \<open>int\<close>;
  \<^verbatim>\<open>time_t\<close> and the \<^verbatim>\<open>long\<close> time limit are signed 64-bit values, modelled by
  \<open>int\<close>: they hold clock readings in seconds and a limit given on the command line,
  whose differences stay far inside the range.
\<close>

record pids_t =
  pid :: int
  start :: int
  remote_txt :: string
  remote_addr :: sockaddr_in6

text \<open>
  \<^verbatim>\<open>struct nsjconf_t\<close>, the fields the modelled functions read or write. The list
  \<open>pids\<close> is the roster, its head the record inserted last (\<^verbatim>\<open>LIST_INSERT_HEAD\<close>).
  A \<^verbatim>\<open>char *\<close> that may be \<^verbatim>\<open>NULL\<close> is an \<open>option\<close>.
\<close>

record nsjconf_t =
  argv :: "string list"
  max_conns_per_ip :: "32 word"
  tlimit :: int
  keep_env :: bool
  clone_newnet :: bool
  clone_newuser :: bool
  clone_newns :: bool
  clone_newpid :: bool
  clone_newipc :: bool
  clone_newuts :: bool
  rl_as :: "64 word"
  rl_core :: "64 word"
  rl_cpu :: "64 word"
  rl_fsize :: "64 word"
  rl_nofile :: "64 word"
  rl_nproc :: "64 word"
  rl_stack :: "64 word"
  iface_macvtap :: "string option"
  iface_macvlan :: "string option"
  pids :: "pids_t list"

text \<open>
  The seven resource-limit options of the \<^verbatim>\<open>switch\<close> in \<^verbatim>\<open>cmdlineParse\<close>:
  \<^verbatim>\<open>
  case 0x0201:
          nsjconf->rl_as = cmdlineParseRLimit(RLIMIT_AS, optarg, (1024 * 1024));
          break;
  case 0x0202:
          nsjconf->rl_core = cmdlineParseRLimit(RLIMIT_CORE, optarg, (1024 * 1024));
          break;
  case 0x0203:
          nsjconf->rl_cpu = cmdlineParseRLimit(RLIMIT_CPU, optarg, 1);
          break;
  case 0x0204:
          nsjconf->rl_fsize = cmdlineParseRLimit(RLIMIT_FSIZE, optarg, (1024 * 1024));
          break;
  case 0x0205:
          nsjconf->rl_nofile = cmdlineParseRLimit(RLIMIT_NOFILE, optarg, 1);
          break;
  case 0x0206:
          nsjconf->rl_nproc = cmdlineParseRLimit(RLIMIT_NPROC, optarg, 1);
          break;
  case 0x0207:
          nsjconf->rl_stack = cmdlineParseRLimit(RLIMIT_STACK, optarg, (1024 * 1024));
          break;
  \<close>
  The result is \<open>None\<close> for an option code that is not one of the seven.
\<close>

definition cmdlineParse_rlimit ::
  "cmdline_env \<Rightarrow> int \<Rightarrow> string \<Rightarrow> nsjconf_t \<Rightarrow> (fatal + nsjconf_t) option" where
  "cmdlineParse_rlimit env c optarg nsjconf =
     (if c = 0x0201 then
        Some (map_sum id (\<lambda>v. nsjconf\<lparr>rl_as := v\<rparr>)
                (cmdlineParseRLimit env RLIMIT_AS optarg (1024 * 1024)))
      else if c = 0x0202 then
        Some (map_sum id (\<lambda>v. nsjconf\<lparr>rl_core := v\<rparr>)
                (cmdlineParseRLimit env RLIMIT_CORE optarg (1024 * 1024)))
      else if c = 0x0203 then
        Some (map_sum id (\<lambda>v. nsjconf\<lparr>rl_cpu := v\<rparr>)
                (cmdlineParseRLimit env RLIMIT_CPU optarg 1))
      else if c = 0x0204 then
        Some (map_sum id (\<lambda>v. nsjconf\<lparr>rl_fsize := v\<rparr>)
                (cmdlineParseRLimit env RLIMIT_FSIZE optarg (1024 * 1024)))
      else if c = 0x0205 then
        Some (map_sum id (\<lambda>v. nsjconf\<lparr>rl_nofile := v\<rparr>)
                (cmdlineParseRLimit env RLIMIT_NOFILE optarg 1))
      else if c = 0x0206 then
        Some (map_sum id (\<lambda>v. nsjconf\<lparr>rl_nproc := v\<rparr>)
                (cmdlineParseRLimit env RLIMIT_NPROC optarg 1))
      else if c = 0x0207 then
        Some (map_sum id (\<lambda>v. nsjconf\<lparr>rl_stack := v\<rparr>)
                (cmdlineParseRLimit env RLIMIT_STACK optarg (1024 * 1024)))
      else None)"

section \<open>What the supervisor and the child observe and do\<close>

datatype log_level = DEBUG | INFO | WARNING | ERROR | FATAL

datatype signal = SIGCONT | SIGKILL

text \<open>One return of \<^verbatim>\<open>read\<close> on the log pipe: bytes, end of file (0) or an error (-1).\<close>

datatype read_ret = RData string | REOF | RErr

text \<open>The containment steps of the child and the final \<^verbatim>\<open>execve\<close>.\<close>

datatype containment_step =
  ContainPrepareEnv | ContainSetupFD | ContainMountFS | ContainDropPrivs | ContainSetLimits
  | ContainMakeFdsCOE | SandboxApply | Execve

text \<open>
  The trace of a run: the calls with an effect outside the function, in the order the
  code makes them. \<open>Log\<close> holds the level, the format string (a long one cut short,
  and without a closing apostrophe) and the integer arguments of a \<^verbatim>\<open>LOG_I\<close>,
  \<^verbatim>\<open>LOG_W\<close>, \<^verbatim>\<open>LOG_E\<close> (or \<^verbatim>\<open>PLOG_\<close>) call; \<^verbatim>\<open>LOG_D\<close> calls are not
  recorded. \<open>Pipe2\<close> and \<open>Clone\<close> hold what the call
  returned, \<open>Close fd\<close> is \<^verbatim>\<open>close(fd)\<close>, \<open>ListInsertHead\<close> and \<open>ListRemove\<close>
  are the two mutations of the roster.
\<close>

datatype event =
    Log log_level string "int list"
  | Pipe2 bool
  | Clone "32 word" int
  | Step containment_step
  | Close int
  | NetCloneNetIfaces int
  | NetCloneMacV string string string int
  | Read read_ret
  | LogDirectlyToFD string
  | ListInsertHead pids_t
  | ListRemove pids_t
  | Kill int signal

text \<open>
  The results of the containment primitives (contain.c, sandbox.c) and of
  \<^verbatim>\<open>execve\<close>, as the child finds them, and the environment \<^verbatim>\<open>environ\<close>.
\<close>

record child_env =
  containPrepareEnv :: bool
  containSetupFD :: bool
  containMountFS :: bool
  containDropPrivs :: bool
  containSetLimits :: bool
  containMakeFdsCOE :: bool
  sandboxApply :: bool
  execve_ok :: bool
  environ :: "string list"

datatype wstatus = WExited int | WSignaled int | WOther

text \<open>
  What the supervisor finds in the system during one call:
  \<^item> \<open>is_socket fd\<close>: \<^verbatim>\<open>getsockopt(fd, SOL_SOCKET, SO_TYPE)\<close> does not fail;
  \<^item> \<open>getpeername\<close>, \<open>getsockname\<close>: the address, \<open>None\<close> for -1;
  \<^item> \<open>inet_ntop\<close>: the text of an address, \<open>None\<close> for \<^verbatim>\<open>NULL\<close>;
  \<^item> \<open>stack_addr\<close>: the bytes found in the local variable \<^verbatim>\<open>addr\<close> of
    \<^verbatim>\<open>netLimitConns\<close>, which is declared without an initialiser;
  \<^item> \<open>pipe2_ok\<close>, \<open>pipe2_fds\<close>: whether \<^verbatim>\<open>pipe2\<close> succeeds, and the two descriptors
    \<^verbatim>\<open>pipefd[0]\<close> (the read end) and \<^verbatim>\<open>pipefd[1]\<close> it then stores;
  \<^item> \<open>clone_ret\<close>: the result of the \<^verbatim>\<open>clone\<close> system call (0 in the child, -1 on
    failure, the child's pid otherwise);
  \<^item> \<open>macv_ok type\<close>: the result of \<^verbatim>\<open>netCloneMacV\<close>, decided by libnl;
  \<^item> \<open>pipe_reads\<close>: the successive returns of \<^verbatim>\<open>read\<close> on the log pipe; when the
    list is used up the next \<^verbatim>\<open>read\<close> never returns;
  \<^item> \<open>malloc_ret\<close>: \<open>None\<close> when \<^verbatim>\<open>malloc\<close> returns \<^verbatim>\<open>NULL\<close>, otherwise the
    block as \<^verbatim>\<open>malloc\<close> hands it out, whose contents nothing has initialised;
  \<^item> \<open>time_now\<close>: \<^verbatim>\<open>time(NULL)\<close>;
  \<^item> \<open>sizeof_remote_txt\<close>: the size of the array \<^verbatim>\<open>remote_txt\<close> of
    \<^verbatim>\<open>struct pids_t\<close> (common.h is not among the sources);
  \<^item> \<open>waitpid_rets\<close>: the successive children \<^verbatim>\<open>waitpid(-1, &status, WNOHANG)\<close>
    reports, with their status; when the list is used up it returns -1;
  \<^item> \<open>child\<close>: what the cloned child finds.
\<close>

record os_env =
  is_socket :: "int \<Rightarrow> bool"
  getpeername :: "int \<Rightarrow> sockaddr_in6 option"
  getsockname :: "int \<Rightarrow> sockaddr_in6 option"
  inet_ntop :: "8 word list \<Rightarrow> string option"
  stack_addr :: sockaddr_in6
  pipe2_ok :: bool
  pipe2_fds :: "int \<times> int"
  clone_ret :: int
  macv_ok :: "string \<Rightarrow> bool"
  pipe_reads :: "read_ret list"
  malloc_ret :: "pids_t option"
  time_now :: int
  sizeof_remote_txt :: nat
  waitpid_rets :: "(int \<times> wstatus) list"
  child :: child_env

section \<open>Networking routines (net.c)\<close>

text \<open>
  \<^verbatim>\<open>snprintf(buf, s, ...)\<close> leaves in \<open>buf\<close> the first \<open>s - 1\<close> characters of the
  formatted text (every call of the sources passes a size of at least 1). \<open>show_nat\<close>
  is the decimal text of \<^verbatim>\<open>%hu\<close>; \<open>ntohs\<close> swaps the two bytes of a 16-bit value,
  the host being little-endian.
\<close>

definition snprintf :: "nat \<Rightarrow> string \<Rightarrow> string" where
  "snprintf s txt = take (s - 1) txt"

fun show_nat :: "nat \<Rightarrow> string" where
  "show_nat n =
     (if n < 10 then [''0123456789'' ! n]
      else show_nat (n div 10) @ [''0123456789'' ! (n mod 10)])"

declare show_nat.simps [simp del]

definition ntohs :: "16 word \<Rightarrow> 16 word" where
  "ntohs w = push_bit 8 w OR drop_bit 8 w"

text \<open>
  \<^verbatim>\<open>
  bool netCloneNetIfaces(struct nsjconf_t * nsjconf, int pid)
  {
          if (nsjconf->iface_macvtap != NULL) {
                  if (netCloneMacV("macvtap", "vt0", nsjconf->iface_macvtap, pid) == false) {
                          LOG_E("Couldn't setup 'macvtap' interface");
                          return false;
                  }
          }
          if (nsjconf->iface_macvlan != NULL) {
                  if (netCloneMacV("macvlan", "vl0", nsjconf->iface_macvlan, pid) == false) {
                          LOG_E("Couldn't setup 'macvtap' interface");
                          return false;
                  }
          }
          return true;
  }
  \<close>
\<close>

definition netCloneNetIfaces :: "os_env \<Rightarrow> nsjconf_t \<Rightarrow> int \<Rightarrow> bool \<times> event list" where
  "netCloneNetIfaces os nsjconf cpid =
     (let (ok1, ev1) =
            (case iface_macvtap nsjconf of
               None \<Rightarrow> (True, [])
             | Some iface \<Rightarrow>
                 if macv_ok os ''macvtap'' = False
                 then (False, [NetCloneMacV ''macvtap'' ''vt0'' iface cpid,
                               Log ERROR ''Couldn't setup 'macvtap' interface'' []])
                 else (True, [NetCloneMacV ''macvtap'' ''vt0'' iface cpid]))
      in if \<not> ok1 then (False, ev1)
         else
           (case iface_macvlan nsjconf of
              None \<Rightarrow> (True, ev1)
            | Some iface \<Rightarrow>
                if macv_ok os ''macvlan'' = False
                then (False, ev1 @ [NetCloneMacV ''macvlan'' ''vl0'' iface cpid,
                                     Log ERROR ''Couldn't setup 'macvtap' interface'' []])
                else (True, ev1 @ [NetCloneMacV ''macvlan'' ''vl0'' iface cpid])))"

text \<open>
  \<^verbatim>\<open>
  static bool netIsSocket(int fd)
  {
          int optval;
          socklen_t optlen = sizeof(optval);
          int ret = getsockopt(fd, SOL_SOCKET, SO_TYPE, &optval, &optlen);
          if (ret == -1) {
                  return false;
          }
          return true;
  }
  \<close>
\<close>

definition netIsSocket :: "os_env \<Rightarrow> int \<Rightarrow> bool" where
  "netIsSocket os fd = (if \<not> is_socket os fd then False else True)"

text \<open>
  \<^verbatim>\<open>
  void netConnToText(int fd, bool remote, char *buf, size_t s, struct sockaddr_in6 *addr_or_null)
  {
          if (netIsSocket(fd) == false) {
                  snprintf(buf, s, "[STANDALONE_MODE]");
                  return;
          }

          struct sockaddr_in6 addr;
          socklen_t addrlen = sizeof(addr);
          if (remote) {
                  if (getpeername(fd, (struct sockaddr *)&addr, &addrlen) == -1) {
                          PLOG_W("getpeername(%d)", fd);
                          snprintf(buf, s, "[unknown]");
                          return;
                  }
          } else {
                  if (getsockname(fd, (struct sockaddr *)&addr, &addrlen) == -1) {
                          PLOG_W("getsockname(%d)", fd);
                          snprintf(buf, s, "[unknown]");
                          return;
                  }
          }

          if (addr_or_null) {
                  memcpy(addr_or_null, &addr, sizeof(*addr_or_null));
          }

          char tmp[s];
          if (inet_ntop(AF_INET6, addr.sin6_addr.s6_addr, tmp, s) == NULL) {
                  PLOG_W("inet_ntop()");
                  snprintf(buf, s, "[unknown]:%hu", ntohs(addr.sin6_port));
                  return;
          }
          snprintf(buf, s, "%s:%hu", tmp, ntohs(addr.sin6_port));
          return;
  }
  \<close>
  The model returns the text left in \<open>buf\<close>, what the function wrote through
  \<open>addr_or_null\<close> (\<open>None\<close> when it wrote nothing there, so that the caller's storage
  keeps what it held), and the log calls. The argument \<open>want_addr\<close> says that
  \<open>addr_or_null\<close> is not \<^verbatim>\<open>NULL\<close>.
\<close>

definition netConnToText ::
  "os_env \<Rightarrow> int \<Rightarrow> bool \<Rightarrow> nat \<Rightarrow> bool \<Rightarrow> string \<times> sockaddr_in6 option \<times> event list" where
  "netConnToText os fd remote s want_addr =
     (if netIsSocket os fd = False then (snprintf s ''[STANDALONE_MODE]'', None, [])
      else
        (case (if remote then getpeername os fd else getsockname os fd) of
           None \<Rightarrow>
             (snprintf s ''[unknown]'', None,
              [Log WARNING (if remote then ''getpeername(%d)'' else ''getsockname(%d)'') [fd]])
         | Some addr \<Rightarrow>
             (let written = (if want_addr then Some addr else None) in
              case inet_ntop os (sin6_addr addr) of
                None \<Rightarrow>
                  (snprintf s (''[unknown]:'' @ show_nat (unat (ntohs (sin6_port addr)))),
                   written, [Log WARNING ''inet_ntop()'' []])
              | Some tmp \<Rightarrow>
                  (snprintf s (tmp @ '':'' @ show_nat (unat (ntohs (sin6_port addr)))),
                   written, []))))"

text \<open>
  \<^verbatim>\<open>memcmp(a, b, n)\<close>: the difference of the first two bytes that differ among the
  first \<open>n\<close>, 0 when there is none.
\<close>

fun memcmp :: "8 word list \<Rightarrow> 8 word list \<Rightarrow> nat \<Rightarrow> int" where
  "memcmp (a # as) (b # bs) (Suc n) = (if a = b then memcmp as bs n else uint a - uint b)"
| "memcmp _ _ _ = 0"

text \<open>
  \<^verbatim>\<open>
  bool netLimitConns(struct nsjconf_t * nsjconf, int connsock)
  {
          /* 0 means 'unlimited' */
          if (nsjconf->max_conns_per_ip == 0) {
                  return true;
          }

          struct sockaddr_in6 addr;
          char cs_addr[64];
          netConnToText(connsock, true /* remote */ , cs_addr, sizeof(cs_addr), &addr);

          unsigned int cnt = 0;
          struct pids_t *p;
          LIST_FOREACH(p, &nsjconf->pids, pointers) {
                  if (memcmp
                      (addr.sin6_addr.s6_addr, p->remote_addr.sin6_addr.s6_addr,
                       sizeof(*p->remote_addr.sin6_addr.s6_addr)) == 0) {
                          cnt++;
                  }
          }

          if (cnt >= nsjconf->max_conns_per_ip) {
                  LOG_W("Rejecting connection from '%s', max_conns_per_ip limit reached: %u", cs_addr,
                        nsjconf->max_conns_per_ip);
                  return false;
          }

          return true;
  }
  \<close>
  \<^verbatim>\<open>s6_addr\<close> is an array of \<^verbatim>\<open>uint8_t\<close>, so \<^verbatim>\<open>*p->remote_addr.sin6_addr.s6_addr\<close>
  is its first element and the size passed to \<^verbatim>\<open>memcmp\<close> is that of one
  \<^verbatim>\<open>uint8_t\<close>: 1.
\<close>

definition sizeof_s6_addr_elem :: nat where
  "sizeof_s6_addr_elem = 1"

fun netLimitConns_count :: "8 word list \<Rightarrow> pids_t list \<Rightarrow> 32 word \<Rightarrow> 32 word" where
  "netLimitConns_count a [] cnt = cnt"
| "netLimitConns_count a (p # ps) cnt =
     netLimitConns_count a ps
       (if memcmp a (sin6_addr (remote_addr p)) sizeof_s6_addr_elem = 0 then cnt + 1 else cnt)"

definition netLimitConns :: "os_env \<Rightarrow> nsjconf_t \<Rightarrow> int \<Rightarrow> bool \<times> event list" where
  "netLimitConns os nsjconf connsock =
     (if max_conns_per_ip nsjconf = 0 then (True, [])
      else
        (let (cs_addr, written, ev) = netConnToText os connsock True 64 True;
             addr = (case written of None \<Rightarrow> stack_addr os | Some a \<Rightarrow> a);
             cnt = netLimitConns_count (sin6_addr addr) (pids nsjconf) 0
         in if cnt \<ge> max_conns_per_ip nsjconf
            then (False,
                  ev @ [Log WARNING
                          ''Rejecting connection from '%s', max_conns_per_ip limit reached: %u''
                          [uint (max_conns_per_ip nsjconf)]])
            else (True, ev)))"

section \<open>Subprocess management (subproc.c)\<close>

text \<open>
  How the cloned child ends: \<^verbatim>\<open>exit\<close> or \<^verbatim>\<open>_exit\<close> with a status, or the process
  image is replaced by \<^verbatim>\<open>execve(path, argv, envp)\<close>; \<open>envp\<close> is \<open>None\<close> for the
  \<^verbatim>\<open>NULL\<close> pointer the code passes unless \<open>keep_env\<close> is set.
\<close>

datatype child_end = Exit int | Execed string "string list" "string list option"

text \<open>
  \<^verbatim>\<open>
  static int subprocNewProc(struct nsjconf_t *nsjconf, int fd_in, int fd_out, int fd_err, int pipefd)
  {
          if (containPrepareEnv(nsjconf) == false) {
                  exit(1);
          }
          if (containSetupFD(nsjconf, fd_in, fd_out, fd_err, pipefd) == false) {
                  exit(1);
          }
          if (containMountFS(nsjconf) == false) {
                  exit(1);
          }
          if (containDropPrivs(nsjconf) == false) {
                  exit(1);
          }
          /* */
          /* As non-root */
          if (containSetLimits(nsjconf) == false) {
                  exit(1);
          }
          if (containMakeFdsCOE() == false) {
                  exit(1);
          }
          /* Should be the last one in the sequence */
          if (sandboxApply(nsjconf) == false) {
                  exit(1);
          }

          char *const *env = { NULL };
          if (nsjconf->keep_env == true) {
                  env = environ;
          }

          LOG_D("Trying to execve('%s')", nsjconf->argv[0]);
          for (int i = 0; nsjconf->argv[i]; i++) {
                  LOG_D(" Arg[%d]: '%s'", i, nsjconf->argv[i]);
          }
          execve(nsjconf->argv[0], &nsjconf->argv[0], env);

          PLOG_E("execve('%s') failed", nsjconf->argv[0]);

          _exit(1);
  }
  \<close>
  The model returns the steps the child called, in order, and how the child ended.
  \<open>argv\<close> is not empty (\<^verbatim>\<open>cmdlineParse\<close> refuses a command line without a
  command); for an empty list the path is the empty string.
\<close>

definition subprocNewProc ::
  "child_env \<Rightarrow> nsjconf_t \<Rightarrow> int \<Rightarrow> int \<Rightarrow> int \<Rightarrow> int \<Rightarrow> event list \<times> child_end" where
  "subprocNewProc ce nsjconf fd_in fd_out fd_err pipefd =
     (if containPrepareEnv ce = False then ([Step ContainPrepareEnv], Exit 1)
      else if containSetupFD ce = False then
        ([Step ContainPrepareEnv, Step ContainSetupFD], Exit 1)
      else if containMountFS ce = False then
        ([Step ContainPrepareEnv, Step ContainSetupFD, Step ContainMountFS], Exit 1)
      else if containDropPrivs ce = False then
        ([Step ContainPrepareEnv, Step ContainSetupFD, Step ContainMountFS,
          Step ContainDropPrivs], Exit 1)
      else if containSetLimits ce = False then
        ([Step ContainPrepareEnv, Step ContainSetupFD, Step ContainMountFS,
          Step ContainDropPrivs, Step ContainSetLimits], Exit 1)
      else if containMakeFdsCOE ce = False then
        ([Step ContainPrepareEnv, Step ContainSetupFD, Step ContainMountFS,
          Step ContainDropPrivs, Step ContainSetLimits, Step ContainMakeFdsCOE], Exit 1)
      else if sandboxApply ce = False then
        ([Step ContainPrepareEnv, Step ContainSetupFD, Step ContainMountFS,
          Step ContainDropPrivs, Step ContainSetLimits, Step ContainMakeFdsCOE,
          Step SandboxApply], Exit 1)
      else
        (let env = (if keep_env nsjconf = True then Some (environ ce) else None);
             path = (case argv nsjconf of [] \<Rightarrow> [] | a # _ \<Rightarrow> a);
             steps = [Step ContainPrepareEnv, Step ContainSetupFD, Step ContainMountFS,
                      Step ContainDropPrivs, Step ContainSetLimits, Step ContainMakeFdsCOE,
                      Step SandboxApply, Step Execve]
         in if execve_ok ce then (steps, Execed path (argv nsjconf) env)
            else (steps @ [Log ERROR ''execve('%s') failed'' []], Exit 1)))"

text \<open>
  \<^verbatim>\<open>
  static void subprocAdd(struct nsjconf_t *nsjconf, pid_t pid, int sock)
  {
          struct pids_t *p = malloc(sizeof(struct pids_t));
          if (p == NULL) {
                  PLOG_E("malloc");
                  return;
          }

          p->pid = pid;
          p->start = time(NULL);
          netConnToText(sock, true /* remote */ , p->remote_txt, sizeof(p->remote_txt),
                        &p->remote_addr);
          LIST_INSERT_HEAD(&nsjconf->pids, p, pointers);
          ...
  }
  \<close>
\<close>

definition subprocAdd :: "os_env \<Rightarrow> nsjconf_t \<Rightarrow> int \<Rightarrow> int \<Rightarrow> nsjconf_t \<times> event list" where
  "subprocAdd os nsjconf cpid sock =
     (case malloc_ret os of
        None \<Rightarrow> (nsjconf, [Log ERROR ''malloc'' []])
      | Some blk \<Rightarrow>
          (let (txt, written, ev) = netConnToText os sock True (sizeof_remote_txt os) True;
               p = blk\<lparr>pid := cpid, start := time_now os, remote_txt := txt,
                       remote_addr := (case written of None \<Rightarrow> remote_addr blk | Some a \<Rightarrow> a)\<rparr>
           in (nsjconf\<lparr>pids := p # pids nsjconf\<rparr>, ev @ [ListInsertHead p])))"

text \<open>
  \<^verbatim>\<open>
  static void subprocRemove(struct nsjconf_t *nsjconf, pid_t pid)
  {
          struct pids_t *p;
          LIST_FOREACH(p, &nsjconf->pids, pointers) {
                  if (p->pid == pid) {
                          ...
                          LIST_REMOVE(p, pointers);
                          free(p);
                          return;
                  }
          }
          LOG_W("PID: %d not found (?)", pid);
  }
  \<close>
  The loop returns the roster without the first record of that pid, and the record,
  or \<open>None\<close> when it reaches the end of the list.
\<close>

fun subprocRemove_loop :: "int \<Rightarrow> pids_t list \<Rightarrow> (pids_t list \<times> pids_t) option" where
  "subprocRemove_loop cpid [] = None"
| "subprocRemove_loop cpid (p # ps) =
     (if pid p = cpid then Some (ps, p)
      else (case subprocRemove_loop cpid ps of
              None \<Rightarrow> None
            | Some (ps', q) \<Rightarrow> Some (p # ps', q)))"

definition subprocRemove :: "nsjconf_t \<Rightarrow> int \<Rightarrow> nsjconf_t \<times> event list" where
  "subprocRemove nsjconf cpid =
     (case subprocRemove_loop cpid (pids nsjconf) of
        Some (ps', q) \<Rightarrow> (nsjconf\<lparr>pids := ps'\<rparr>, [ListRemove q])
      | None \<Rightarrow> (nsjconf, [Log WARNING ''PID: %d not found (?)'' [cpid]]))"

definition subprocCount :: "nsjconf_t \<Rightarrow> int" where
  "subprocCount nsjconf = int (length (pids nsjconf))"

text \<open>
  \<^verbatim>\<open>
  void subprocReap(struct nsjconf_t *nsjconf)
  {
          int status;
          pid_t pid;
          while ((pid = waitpid(-1, &status, WNOHANG)) > 0) {
                  if (WIFEXITED(status)) {
                          subprocRemove(nsjconf, pid);
                          LOG_I("PID: %d exited with status: %d, (PIDs left: %d)", pid,
                                WEXITSTATUS(status), subprocCount(nsjconf));
                  }
                  if (WIFSIGNALED(status)) {
                          subprocRemove(nsjconf, pid);
                          LOG_I("PID: %d terminated with signal: %d, (PIDs left: %d)", pid,
                                WTERMSIG(status), subprocCount(nsjconf));
                  }
          }

          time_t now = time(NULL);
          struct pids_t *p;
          LIST_FOREACH(p, &nsjconf->pids, pointers) {
                  if (nsjconf->tlimit == 0) {
                          continue;
                  }
                  pid = p->pid;
                  time_t diff = now - p->start;
                  if (diff >= nsjconf->tlimit) {
                          LOG_I("PID: %d run time >= time limit (%ld >= %ld) (%s). Killing it", pid,
                                (long)diff, (long)nsjconf->tlimit, p->remote_txt);
                          /* Probably a kernel bug - some processes cannot be killed with KILL if
                           * they're namespaced, and in a stopped state */
                          kill(pid, SIGCONT);
                          PLOG_D("Sent SIGCONT to PID: %d", pid);
                          kill(pid, SIGKILL);
                          PLOG_D("Sent SIGKILL to PID: %d", pid);
                  }
          }
  }
  \<close>
  The function is modelled in its two halves: the \<^verbatim>\<open>waitpid\<close> loop
  (\<open>subprocReap_wait\<close>) and the loop over the roster that enforces the time limit
  (\<open>subprocReap_tlimit\<close>). A status is that of an exited child, of a child a signal
  terminated, or another one, for which neither macro holds.
\<close>

fun subprocReap_wait :: "(int \<times> wstatus) list \<Rightarrow> nsjconf_t \<Rightarrow> nsjconf_t \<times> event list" where
  "subprocReap_wait [] nsjconf = (nsjconf, [])"
| "subprocReap_wait ((wpid, status) # rest) nsjconf =
     (if wpid > 0 then
        (let (c1, e1) =
               (case status of
                  WExited code \<Rightarrow>
                    (let (c, e) = subprocRemove nsjconf wpid
                     in (c, e @ [Log INFO ''PID: %d exited with status: %d, (PIDs left: %d)''
                                   [wpid, code, subprocCount c]]))
                | WSignaled sig \<Rightarrow>
                    (let (c, e) = subprocRemove nsjconf wpid
                     in (c, e @ [Log INFO ''PID: %d terminated with signal: %d, (PIDs left: %d)''
                                   [wpid, sig, subprocCount c]]))
                | WOther \<Rightarrow> (nsjconf, []));
             (c2, e2) = subprocReap_wait rest c1
         in (c2, e1 @ e2))
      else (nsjconf, []))"

fun subprocReap_tlimit :: "int \<Rightarrow> int \<Rightarrow> pids_t list \<Rightarrow> event list" where
  "subprocReap_tlimit lim now [] = []"
| "subprocReap_tlimit lim now (p # ps) =
     (if lim = 0 then subprocReap_tlimit lim now ps
      else
        (let diff = now - start p
         in (if diff \<ge> lim
             then [Log INFO ''PID: %d run time >= time limit (%ld >= %ld) (%s). Killing it''
                     [pid p, diff, lim],
                   Kill (pid p) SIGCONT, Kill (pid p) SIGKILL]
             else [])
            @ subprocReap_tlimit lim now ps))"

definition subprocReap :: "os_env \<Rightarrow> nsjconf_t \<Rightarrow> nsjconf_t \<times> event list" where
  "subprocReap os nsjconf =
     (let (c1, e1) = subprocReap_wait (waitpid_rets os) nsjconf;
          now = time_now os
      in (c1, e1 @ subprocReap_tlimit (tlimit c1) now (pids c1)))"

text \<open>
  The constants of the system headers (Linux, \<^verbatim>\<open>signal.h\<close> and \<^verbatim>\<open>sched.h\<close>).
\<close>

definition SIGCHLD :: "32 word" where
  "SIGCHLD = 17"

definition CLONE_NEWNS :: "32 word" where
  "CLONE_NEWNS = 0x00020000"

definition CLONE_NEWUTS :: "32 word" where
  "CLONE_NEWUTS = 0x04000000"

definition CLONE_NEWIPC :: "32 word" where
  "CLONE_NEWIPC = 0x08000000"

definition CLONE_NEWUSER :: "32 word" where
  "CLONE_NEWUSER = 0x10000000"

definition CLONE_NEWPID :: "32 word" where
  "CLONE_NEWPID = 0x20000000"

definition CLONE_NEWNET :: "32 word" where
  "CLONE_NEWNET = 0x40000000"

text \<open>
  \<^verbatim>\<open>
  unsigned int flags = SIGCHLD;
  flags |= (nsjconf->clone_newnet ? CLONE_NEWNET : 0);
  flags |= (nsjconf->clone_newuser ? CLONE_NEWUSER : 0);
  flags |= (nsjconf->clone_newns ? CLONE_NEWNS : 0);
  flags |= (nsjconf->clone_newpid ? CLONE_NEWPID : 0);
  flags |= (nsjconf->clone_newipc ? CLONE_NEWIPC : 0);
  flags |= (nsjconf->clone_newuts ? CLONE_NEWUTS : 0);
  \<close>
\<close>

definition clone_flags :: "nsjconf_t \<Rightarrow> 32 word" where
  "clone_flags nsjconf =
     (let flags = SIGCHLD;
          flags = flags OR (if clone_newnet nsjconf then CLONE_NEWNET else 0);
          flags = flags OR (if clone_newuser nsjconf then CLONE_NEWUSER else 0);
          flags = flags OR (if clone_newns nsjconf then CLONE_NEWNS else 0);
          flags = flags OR (if clone_newpid nsjconf then CLONE_NEWPID else 0);
          flags = flags OR (if clone_newipc nsjconf then CLONE_NEWIPC else 0);
          flags = flags OR (if clone_newuts nsjconf then CLONE_NEWUTS else 0)
      in flags)"

text \<open>
  The read loop of the parent on the log pipe:
  \<^verbatim>\<open>
  while ((sz = read(pipefd[0], log_buf, sizeof(log_buf) - 1)) > 0) {
          log_buf[sz] = '\0';
          logDirectlyToFD(log_buf);
  }
  \<close>
  The result is the trace of the loop and whether the loop ended; it does not end
  when a \<^verbatim>\<open>read\<close> never returns.
\<close>

definition read_sz :: "read_ret \<Rightarrow> int" where
  "read_sz r = (case r of RData bytes \<Rightarrow> int (length bytes) | REOF \<Rightarrow> 0 | RErr \<Rightarrow> - 1)"

fun subprocRunChild_read :: "read_ret list \<Rightarrow> event list \<times> bool" where
  "subprocRunChild_read [] = ([], False)"
| "subprocRunChild_read (r # rs) =
     (if read_sz r > 0 then
        (let (ev, ended) = subprocRunChild_read rs
         in (Read r # LogDirectlyToFD (c_str (case r of RData bytes \<Rightarrow> bytes | _ \<Rightarrow> [])) # ev,
             ended))
      else ([Read r], True))"

text \<open>
  How a call of \<^verbatim>\<open>subprocRunChild\<close> ends: it returns to the supervisor, it never
  returns because a \<^verbatim>\<open>read\<close> on the log pipe blocks for ever, or, in the cloned
  child, the process ends inside \<^verbatim>\<open>subprocNewProc\<close>.
\<close>

datatype outcome = Returned | Blocked | InChild child_end

record run_result =
  rr_conf :: nsjconf_t
  rr_trace :: "event list"
  rr_outcome :: outcome

text \<open>
  \<^verbatim>\<open>
  void subprocRunChild(struct nsjconf_t *nsjconf, int fd_in, int fd_out, int fd_err)
  {
          if (netLimitConns(nsjconf, fd_in) == false) {
                  return;
          }

          unsigned int flags = SIGCHLD;
          ...
          int pipefd[2];
          if (pipe2(pipefd, O_CLOEXEC) == -1) {
                  PLOG_E("pipe2(pipefd, O_CLOEXEC) failed");
                  return;
          }

          pid_t pid = syscall(__NR_clone, flags, NULL, NULL, NULL, 0);
          if (pid == 0) {
                  subprocNewProc(nsjconf, fd_in, fd_out, fd_err, pipefd[1]);
          }
          if (pid == -1) {
                  PLOG_E("clone(flags=%#x) failed. ...", flags);
                  close(pipefd[0]);
                  close(pipefd[1]);
                  return;
          }

          if (netCloneNetIfaces(nsjconf, pid) == false) {
                  LOG_E("Couldn't create and put MACVTAP interface into NS of PID '%d'", pid);
          }

          char log_buf[4096];
          ssize_t sz;
          while ((sz = read(pipefd[0], log_buf, sizeof(log_buf) - 1)) > 0) {
                  log_buf[sz] = '\0';
                  logDirectlyToFD(log_buf);
          }
          close(pipefd[0]);

          subprocAdd(nsjconf, pid, fd_in);

          char cs_addr[64];
          netConnToText(fd_in, true /* remote */ , cs_addr, sizeof(cs_addr), NULL);
          LOG_I("PID: %d about to execute '%s' for %s", pid, nsjconf->argv[0], cs_addr);
  }
  \<close>
\<close>

definition subprocRunChild :: "os_env \<Rightarrow> nsjconf_t \<Rightarrow> int \<Rightarrow> int \<Rightarrow> int \<Rightarrow> run_result" where
  "subprocRunChild os nsjconf fd_in fd_out fd_err =
     (let (ok, ev0) = netLimitConns os nsjconf fd_in in
      if ok = False then \<lparr>rr_conf = nsjconf, rr_trace = ev0, rr_outcome = Returned\<rparr>
      else
        (let flags = clone_flags nsjconf in
         if \<not> pipe2_ok os then
           \<lparr>rr_conf = nsjconf,
            rr_trace = ev0 @ [Pipe2 False, Log ERROR ''pipe2(pipefd, O_CLOEXEC) failed'' []],
            rr_outcome = Returned\<rparr>
         else
           (let cpid = clone_ret os;
                ev1 = ev0 @ [Pipe2 True, Clone flags cpid]
            in if cpid = 0 then
                 (let (evc, e) = subprocNewProc (child os) nsjconf fd_in fd_out fd_err (snd (pipe2_fds os))
                  in \<lparr>rr_conf = nsjconf, rr_trace = ev1 @ evc, rr_outcome = InChild e\<rparr>)
               else if cpid = - 1 then
                 \<lparr>rr_conf = nsjconf,
                  rr_trace = ev1 @ [Log ERROR ''clone(flags=%#x) failed'' [uint flags],
                                    Close (fst (pipe2_fds os)), Close (snd (pipe2_fds os))],
                  rr_outcome = Returned\<rparr>
               else
                 (let (okn, evn) = netCloneNetIfaces os nsjconf cpid;
                      ev2 = ev1 @ [NetCloneNetIfaces cpid] @ evn @
                            (if okn = False
                             then [Log ERROR
                                     ''Couldn't create and put MACVTAP interface into NS of PID''
                                     [cpid]]
                             else []);
                      (evr, ended) = subprocRunChild_read (pipe_reads os)
                  in if \<not> ended then
                       \<lparr>rr_conf = nsjconf, rr_trace = ev2 @ evr, rr_outcome = Blocked\<rparr>
                     else
                       (let (conf', eva) = subprocAdd os nsjconf cpid fd_in;
                            (cs_addr, w, evt) = netConnToText os fd_in True 64 False
                        in \<lparr>rr_conf = conf',
                            rr_trace = ev2 @ evr @ [Close (fst (pipe2_fds os))] @ eva @ evt @
                                       [Log INFO ''PID: %d about to execute '%s' for %s'' [cpid]],
                            rr_outcome = Returned\<rparr>)))))"

section \<open>Vocabulary of the properties\<close>

subsection \<open>Kinds of events\<close>

fun is_insert :: "event \<Rightarrow> bool" where
  "is_insert (ListInsertHead p) = True"
| "is_insert _ = False"

fun is_remove :: "event \<Rightarrow> bool" where
  "is_remove (ListRemove p) = True"
| "is_remove _ = False"

fun is_netattach :: "event \<Rightarrow> bool" where
  "is_netattach (NetCloneNetIfaces p) = True"
| "is_netattach (NetCloneMacV t n i p) = True"
| "is_netattach _ = False"

fun is_clone :: "event \<Rightarrow> bool" where
  "is_clone (Clone f r) = True"
| "is_clone _ = False"

fun is_log :: "event \<Rightarrow> bool" where
  "is_log (Log l f a) = True"
| "is_log _ = False"

fun is_kill :: "event \<Rightarrow> bool" where
  "is_kill (Kill p s) = True"
| "is_kill _ = False"

fun is_close :: "event \<Rightarrow> bool" where
  "is_close (Close fd) = True"
| "is_close _ = False"

fun is_step :: "event \<Rightarrow> bool" where
  "is_step (Step s) = True"
| "is_step _ = False"

definition no_insert :: "event list \<Rightarrow> bool" where
  "no_insert ev = list_all (\<lambda>e. \<not> is_insert e) ev"

subsection \<open>What the specification says, in its own words\<close>

text \<open>
  The rate limiter of the specification: allow when the cap is 0; otherwise count the
  records whose stored 16-byte remote address equals the address of the connection
  byte for byte, and allow iff the count is strictly less than the cap.
\<close>

definition rate_limit_spec :: "8 word list \<Rightarrow> pids_t list \<Rightarrow> 32 word \<Rightarrow> bool" where
  "rate_limit_spec addr16 roster cap =
     (cap = 0 \<or> length (filter (\<lambda>p. sin6_addr (remote_addr p) = addr16) roster) < unat cap)"

text \<open>The fixed order of the containment steps, and the result of a step in a child.\<close>

definition containment_order :: "containment_step list" where
  "containment_order =
     [ContainPrepareEnv, ContainSetupFD, ContainMountFS, ContainDropPrivs, ContainSetLimits,
      ContainMakeFdsCOE, SandboxApply, Execve]"

fun step_ok :: "child_env \<Rightarrow> containment_step \<Rightarrow> bool" where
  "step_ok ce ContainPrepareEnv = containPrepareEnv ce"
| "step_ok ce ContainSetupFD = containSetupFD ce"
| "step_ok ce ContainMountFS = containMountFS ce"
| "step_ok ce ContainDropPrivs = containDropPrivs ce"
| "step_ok ce ContainSetLimits = containSetLimits ce"
| "step_ok ce ContainMakeFdsCOE = containMakeFdsCOE ce"
| "step_ok ce SandboxApply = sandboxApply ce"
| "step_ok ce Execve = execve_ok ce"

text \<open>The namespace flags a configuration enables.\<close>

definition ns_flags :: "nsjconf_t \<Rightarrow> 32 word list" where
  "ns_flags c =
     map snd (filter fst
       [(clone_newnet c, CLONE_NEWNET), (clone_newuser c, CLONE_NEWUSER),
        (clone_newns c, CLONE_NEWNS), (clone_newpid c, CLONE_NEWPID),
        (clone_newipc c, CLONE_NEWIPC), (clone_newuts c, CLONE_NEWUTS)])"

text \<open>
  The number a string of decimal digits denotes; the unit of each resource (MB for
  address space, core, file size and stack, 1 for cpu, nofile and nproc); the resource
  of an option code and the field of the configuration that holds its limit.
\<close>

definition decimal_value :: "string \<Rightarrow> nat" where
  "decimal_value s = foldl (\<lambda>a ch. a * 10 + ((of_char ch :: nat) - 48)) 0 s"

text \<open>
  The number a string denotes in the notation of C, as far as it can be read: in base
  16 after 0x, in base 8 after a leading 0, in base 10 otherwise; the value is not
  bounded.
\<close>

definition parsed_number :: "string \<Rightarrow> nat" where
  "parsed_number s = (case strtoul_base (c_str s) of (b, digits) \<Rightarrow> strtoul_digits b digits 0)"

definition rlimit_unit :: "resource \<Rightarrow> 64 word" where
  "rlimit_unit res =
     (case res of
        RLIMIT_AS \<Rightarrow> 1024 * 1024 | RLIMIT_CORE \<Rightarrow> 1024 * 1024
      | RLIMIT_FSIZE \<Rightarrow> 1024 * 1024 | RLIMIT_STACK \<Rightarrow> 1024 * 1024
      | RLIMIT_CPU \<Rightarrow> 1 | RLIMIT_NOFILE \<Rightarrow> 1 | RLIMIT_NPROC \<Rightarrow> 1)"

definition rlimit_option :: "int \<Rightarrow> resource option" where
  "rlimit_option c =
     (if c = 0x0201 then Some RLIMIT_AS else if c = 0x0202 then Some RLIMIT_CORE
      else if c = 0x0203 then Some RLIMIT_CPU else if c = 0x0204 then Some RLIMIT_FSIZE
      else if c = 0x0205 then Some RLIMIT_NOFILE else if c = 0x0206 then Some RLIMIT_NPROC
      else if c = 0x0207 then Some RLIMIT_STACK else None)"

definition rl_update :: "resource \<Rightarrow> nsjconf_t \<Rightarrow> 64 word \<Rightarrow> nsjconf_t" where
  "rl_update res nsjconf v =
     (case res of
        RLIMIT_AS \<Rightarrow> nsjconf\<lparr>rl_as := v\<rparr> | RLIMIT_CORE \<Rightarrow> nsjconf\<lparr>rl_core := v\<rparr>
      | RLIMIT_CPU \<Rightarrow> nsjconf\<lparr>rl_cpu := v\<rparr> | RLIMIT_FSIZE \<Rightarrow> nsjconf\<lparr>rl_fsize := v\<rparr>
      | RLIMIT_NOFILE \<Rightarrow> nsjconf\<lparr>rl_nofile := v\<rparr> | RLIMIT_NPROC \<Rightarrow> nsjconf\<lparr>rl_nproc := v\<rparr>
      | RLIMIT_STACK \<Rightarrow> nsjconf\<lparr>rl_stack := v\<rparr>)"

subsection \<open>Concrete inputs\<close>

text \<open>
  A configuration with all six namespaces on, a per-IP cap \<open>cap\<close> and a roster; a peer
  address 2001:db8::\<open>b\<close> with port 12345; a block of memory filled with the byte 0xAA, as
  \<^verbatim>\<open>malloc\<close> may return it; a child in which every step succeeds; and a system in
  which the descriptors are sockets (or none is, when \<open>sock\<close> is false), the peer is
  2001:db8::2, \<^verbatim>\<open>clone\<close> returns \<open>cl\<close>, the log pipe delivers \<open>rs\<close> and
  \<^verbatim>\<open>malloc\<close> returns \<open>m\<close>.
\<close>

definition ex_conf :: "32 word \<Rightarrow> pids_t list \<Rightarrow> nsjconf_t" where
  "ex_conf cap roster =
     \<lparr>argv = [''/bin/cat''], max_conns_per_ip = cap, tlimit = 600, keep_env = False,
      clone_newnet = True, clone_newuser = True, clone_newns = True, clone_newpid = True,
      clone_newipc = True, clone_newuts = True,
      rl_as = 536870912, rl_core = 0, rl_cpu = 600, rl_fsize = 1048576, rl_nofile = 32,
      rl_nproc = 1024, rl_stack = 8388608,
      iface_macvtap = None, iface_macvlan = None, pids = roster\<rparr>"

definition ex_addr :: "8 word \<Rightarrow> sockaddr_in6" where
  "ex_addr b =
     \<lparr>sin6_family = 10, sin6_port = 0x3930, sin6_flowinfo = 0,
      sin6_addr = [0x20, 0x01, 0x0d, 0xb8, 0, 0, 0, 0, 0, 0, 0, 0, 0, 0, 0, b],
      sin6_scope_id = 0\<rparr>"

definition ex_record :: "int \<Rightarrow> 8 word \<Rightarrow> pids_t" where
  "ex_record p b =
     \<lparr>pid = p, start = 900, remote_txt = ''2001:db8::1:12345'', remote_addr = ex_addr b\<rparr>"

definition ex_block :: pids_t where
  "ex_block =
     \<lparr>pid = 0, start = 0, remote_txt = [],
      remote_addr = \<lparr>sin6_family = 0xAAAA, sin6_port = 0xAAAA, sin6_flowinfo = 0xAAAAAAAA,
                      sin6_addr = replicate 16 0xAA, sin6_scope_id = 0xAAAAAAAA\<rparr>\<rparr>"

definition ex_child :: child_env where
  "ex_child =
     \<lparr>containPrepareEnv = True, containSetupFD = True, containMountFS = True,
      containDropPrivs = True, containSetLimits = True, containMakeFdsCOE = True,
      sandboxApply = True, execve_ok = True, environ = [''PATH=/bin'']\<rparr>"

definition ex_os :: "bool \<Rightarrow> int \<Rightarrow> read_ret list \<Rightarrow> pids_t option \<Rightarrow> os_env" where
  "ex_os sock cl rs m =
     \<lparr>is_socket = (\<lambda>fd. sock),
      getpeername = (\<lambda>fd. Some (ex_addr 2)),
      getsockname = (\<lambda>fd. Some (ex_addr 1)),
      inet_ntop = (\<lambda>a. Some ''2001:db8::2''),
      stack_addr = remote_addr ex_block,
      pipe2_ok = True, pipe2_fds = (5, 6), clone_ret = cl,
      macv_ok = (\<lambda>t. True),
      pipe_reads = rs,
      malloc_ret = m,
      time_now = 1000, sizeof_remote_txt = 64,
      waitpid_rets = [],
      child = ex_child\<rparr>"

definition ex_cmdline_env :: "int \<Rightarrow> cmdline_env" where
  "ex_cmdline_env e =
     \<lparr>getrlimit = (\<lambda>r. Some \<lparr>rlim_cur = 1024, rlim_max = 4096\<rparr>), errno = e\<rparr>"

text \<open>A system in which \<^verbatim>\<open>getrlimit\<close> fails.\<close>

definition ex_cmdline_env_fail :: cmdline_env where
  "ex_cmdline_env_fail = \<lparr>getrlimit = (\<lambda>r. None), errno = 0\<rparr>"

section \<open>Properties\<close>

subsection \<open>The number test of the command line\<close>

lemma c_index_0_Cons: "c_index (c # s) 0 = c"
  by (simp add: c_index_def)

lemma c_index_0_Nil: "c_index [] 0 = NUL"
  by (simp add: c_index_def)

lemma cmdlineIsANumber_loop_0:
  "cmdlineIsANumber_loop 0 s =
     list_all (\<lambda>c. isdigit c \<or> c = CHR ''x'') (takeWhile (\<lambda>c. c \<noteq> NUL) s)"
proof (induction s)
  case Nil
  show ?case
    by (subst cmdlineIsANumber_loop.simps) (simp add: c_index_0_Nil)
next
  case (Cons c s)
  show ?case
    by (subst cmdlineIsANumber_loop.simps) (auto simp: c_index_0_Cons Cons.IH)
qed

lemma cmdlineIsANumber_list_all:
  "cmdlineIsANumber s = list_all (\<lambda>ch. isdigit ch \<or> ch = CHR ''x'') (c_str s)"
  by (simp add: cmdlineIsANumber_def cmdlineIsANumber_loop_0 c_str_def)

text \<open>
  C9. \<open>cmdlineIsANumber s\<close> is true exactly when every character of the C string
  \<open>s\<close> is a decimal digit or the letter x: the x is accepted at any position, the empty
  string is accepted, and although the index stays 0 while the pointer advances, no
  character of the string escapes the test.
\<close>

theorem cmdlineIsANumber_iff:
  "cmdlineIsANumber s = (\<forall>c \<in> set (c_str s). isdigit c \<or> c = CHR ''x'')"
  by (simp add: cmdlineIsANumber_def cmdlineIsANumber_loop_0 c_str_def list_all_iff)

theorem cmdlineIsANumber_iff_witness:
  "cmdlineIsANumber ''1x2x'' \<and> cmdlineIsANumber [] \<and> \<not> cmdlineIsANumber ''12a''
   \<and> \<not> cmdlineIsANumber ''12345678z''"
  using cmdlineIsANumber_iff [of "''1x2x''"] cmdlineIsANumber_iff [of "[]"]
    cmdlineIsANumber_iff [of "''12a''"] cmdlineIsANumber_iff [of "''12345678z''"]
  by (simp add: c_str_def NUL_def isdigit_def)

subsection \<open>Parsing a resource limit\<close>

lemma of_char_eq_0: "((of_char ch :: nat) = 0) = (ch = NUL)"
  using of_char_eq_iff [of ch NUL, where ?'a = nat] by (simp add: NUL_def)

lemma of_char_tolower:
  "(of_char (tolower ch) :: nat) =
     (if 65 \<le> (of_char ch :: nat) \<and> (of_char ch :: nat) \<le> 90 then of_char ch + 32
      else of_char ch)"
  by (simp add: tolower_def)

lemma tolower_not_NUL: "ch \<noteq> NUL \<Longrightarrow> (of_char (tolower ch) :: int) \<noteq> 0"
proof -
  assume "ch \<noteq> NUL"
  then have "(of_char (tolower ch) :: nat) \<noteq> 0"
    using of_char_eq_0 [of ch] by (auto simp: of_char_tolower)
  then have "int (of_char (tolower ch)) \<noteq> 0"
    by simp
  then show ?thesis
    by (simp add: of_nat_of_char)
qed

lemma of_char_int_diff: "((of_char a :: int) - of_char b = 0) = (a = b)"
  by simp

lemma strcasecmp_loop_0:
  "NUL \<notin> set a \<Longrightarrow> NUL \<notin> set b \<Longrightarrow>
     (strcasecmp_loop a b = 0) = (map tolower a = map tolower b)"
proof (induction a b rule: strcasecmp_loop.induct)
  case 1
  show ?case by simp
next
  case (2 b bs)
  then show ?case using tolower_not_NUL [of b] by auto
next
  case (3 a as)
  then show ?case using tolower_not_NUL [of a] by auto
next
  case (4 a as b bs)
  then show ?case by (simp add: of_char_int_diff)
qed

lemma NUL_notin_c_str: "NUL \<notin> set (c_str s)"
  by (induction s) (auto simp: c_str_def)

lemma strcasecmp_0:
  "(strcasecmp a b = 0) = (map tolower (c_str a) = map tolower (c_str b))"
  by (simp add: strcasecmp_def strcasecmp_loop_0 NUL_notin_c_str)

lemma lower_max: "map tolower (c_str ''max'') = ''max''"
  by (simp add: c_str_def NUL_def tolower_def)

lemma lower_def: "map tolower (c_str ''def'') = ''def''"
  by (simp add: c_str_def NUL_def tolower_def)

lemma char_of_eq: "k < 256 \<Longrightarrow> (char_of (k :: nat) = ch) = (k = of_char ch)"
proof -
  assume k: "k < 256"
  have "(char_of k = ch) = ((of_char (char_of k) :: nat) = of_char ch)"
    by (simp only: of_char_eq_iff)
  also have "\<dots> = (k = of_char ch)"
    using k by simp
  finally show ?thesis .
qed

lemma strtoul_digits_decimal:
  "list_all isdigit s \<Longrightarrow>
     strtoul_digits 10 s acc = foldl (\<lambda>a ch. a * 10 + ((of_char ch :: nat) - 48)) acc s"
proof (induction s arbitrary: acc)
  case Nil
  show ?case by simp
next
  case (Cons ch s)
  then have r: "list_all isdigit s" and "isdigit ch"
    by simp_all
  then have d: "48 \<le> (of_char ch :: nat)" "(of_char ch :: nat) \<le> 57"
    by (simp_all add: isdigit_def)
  from d have "digit_val ch = Some ((of_char ch :: nat) - 48)"
    by (simp add: digit_val_def)
  moreover from d have "(of_char ch :: nat) - 48 < 10"
    by arith
  ultimately show ?case
    using Cons.IH [OF r] by simp
qed

lemma isdigit_props:
  "isdigit ch \<Longrightarrow> ch \<noteq> NUL \<and> \<not> isspace ch \<and> ch \<noteq> CHR ''-'' \<and> ch \<noteq> CHR ''+''"
  by (auto simp: isdigit_def isspace_def NUL_def)

lemma c_str_digits: "list_all isdigit s \<Longrightarrow> c_str s = s"
  by (induction s) (auto simp: c_str_def dest: isdigit_props)

lemma unat_ULONG_MAX: "unat ULONG_MAX = 18446744073709551615"
  by (simp add: ULONG_MAX_def unsigned_minus_1_eq_mask mask_eq_exp_minus_1)

lemma digits_not_keyword:
  assumes "list_all isdigit s"
  shows "map tolower (c_str s) \<noteq> ''max''" and "map tolower (c_str s) \<noteq> ''def''"
proof -
  have "\<And>ch. isdigit ch \<Longrightarrow> tolower ch = ch"
    by (simp add: isdigit_def tolower_def)
  with assms have "map tolower s = s"
    by (induction s) simp_all
  moreover have "\<not> list_all isdigit ''max''" "\<not> list_all isdigit ''def''"
    by (simp_all add: isdigit_def)
  ultimately show "map tolower (c_str s) \<noteq> ''max''" and "map tolower (c_str s) \<noteq> ''def''"
    using assms c_str_digits [OF assms] by auto
qed

lemma decimal_times_unit:
  assumes "d * unat (mul :: 64 word) < 2 ^ 64 - 1"
  shows "of_nat d * mul = (of_nat (d * unat mul) :: 64 word)"
    and "of_nat d * mul \<noteq> ULONG_MAX"
proof -
  show eq: "of_nat d * mul = (of_nat (d * unat mul) :: 64 word)"
    by simp
  have lt: "d * unat mul < 2 ^ 64"
    using assms by arith
  have "unat (of_nat (d * unat mul) :: 64 word) = (d * unat mul) mod 2 ^ LENGTH(64)"
    by (rule unat_of_nat)
  also have "\<dots> = d * unat mul"
    using lt by simp
  finally have u: "unat (of_nat (d * unat mul) :: 64 word) = d * unat mul" .
  have m: "unat ULONG_MAX = 2 ^ 64 - 1"
    by (simp add: unat_ULONG_MAX)
  show "of_nat d * mul \<noteq> ULONG_MAX"
  proof
    assume "of_nat d * mul = ULONG_MAX"
    then have "unat (of_nat (d * unat mul) :: 64 word) = unat ULONG_MAX"
      by (simp only: eq)
    then have "d * unat mul = 2 ^ 64 - 1"
      by (simp only: u m)
    with assms show False
      by simp
  qed
qed

lemma rl_update_simps:
  "rl_update RLIMIT_AS c = (\<lambda>v. c\<lparr>rl_as := v\<rparr>)"
  "rl_update RLIMIT_CORE c = (\<lambda>v. c\<lparr>rl_core := v\<rparr>)"
  "rl_update RLIMIT_CPU c = (\<lambda>v. c\<lparr>rl_cpu := v\<rparr>)"
  "rl_update RLIMIT_FSIZE c = (\<lambda>v. c\<lparr>rl_fsize := v\<rparr>)"
  "rl_update RLIMIT_NOFILE c = (\<lambda>v. c\<lparr>rl_nofile := v\<rparr>)"
  "rl_update RLIMIT_NPROC c = (\<lambda>v. c\<lparr>rl_nproc := v\<rparr>)"
  "rl_update RLIMIT_STACK c = (\<lambda>v. c\<lparr>rl_stack := v\<rparr>)"
  by (simp_all add: fun_eq_iff rl_update_def)

lemma parse_rlimit_table:
  "cmdlineParse_rlimit env c optarg nsjconf =
     map_option
       (\<lambda>r. map_sum id (rl_update r nsjconf) (cmdlineParseRLimit env r optarg (rlimit_unit r)))
       (rlimit_option c)"
  by (simp add: cmdlineParse_rlimit_def rlimit_option_def rl_update_simps rlimit_unit_def)

lemma strcasecmp_max: "(strcasecmp optarg ''max'' = 0) = (map tolower (c_str optarg) = ''max'')"
  by (simp add: strcasecmp_0 lower_max)

lemma strcasecmp_def': "(strcasecmp optarg ''def'' = 0) = (map tolower (c_str optarg) = ''def'')"
  by (simp add: strcasecmp_0 lower_def)

lemma parse_max:
  "getrlimit env res = Some cur \<Longrightarrow> map tolower (c_str optarg) = ''max'' \<Longrightarrow>
     cmdlineParseRLimit env res optarg mul = Inr (rlim_max cur)"
  by (simp add: cmdlineParseRLimit_def strcasecmp_max)

lemma parse_def:
  "getrlimit env res = Some cur \<Longrightarrow> map tolower (c_str optarg) = ''def'' \<Longrightarrow>
     cmdlineParseRLimit env res optarg mul = Inr (rlim_cur cur)"
  by (simp add: cmdlineParseRLimit_def strcasecmp_max strcasecmp_def')

lemma parse_numeric:
  "getrlimit env res = Some cur \<Longrightarrow> map tolower (c_str optarg) \<noteq> ''max'' \<Longrightarrow>
   map tolower (c_str optarg) \<noteq> ''def'' \<Longrightarrow>
   list_all (\<lambda>ch. isdigit ch \<or> ch = CHR ''x'') (c_str optarg) \<Longrightarrow>
     cmdlineParseRLimit env res optarg mul =
       (if fst (strtoul0 optarg (errno env)) * mul = ULONG_MAX
           \<and> snd (strtoul0 optarg (errno env)) \<noteq> 0
        then Inl (Fatal ''strtoul('%s', 0)'')
        else Inr (fst (strtoul0 optarg (errno env)) * mul))"
  by (simp add: cmdlineParseRLimit_def strcasecmp_max strcasecmp_def' cmdlineIsANumber_list_all
      Let_def split: prod.splits)

lemma parse_other:
  "getrlimit env res = Some cur \<Longrightarrow> map tolower (c_str optarg) \<noteq> ''max'' \<Longrightarrow>
   map tolower (c_str optarg) \<noteq> ''def'' \<Longrightarrow>
   \<not> list_all (\<lambda>ch. isdigit ch \<or> ch = CHR ''x'') (c_str optarg) \<Longrightarrow>
     cmdlineParseRLimit env res optarg mul =
       Inl (Fatal ''RLIMIT %d needs a numeric or 'max'/'def' value ('%s' provided)'')"
  by (simp add: cmdlineParseRLimit_def strcasecmp_max strcasecmp_def' cmdlineIsANumber_list_all)

lemma ex_getrlimit:
  "getrlimit (ex_cmdline_env e) r = Some \<lparr>rlim_cur = 1024, rlim_max = 4096\<rparr>"
  by (simp add: ex_cmdline_env_def)

lemma ex_overflow: "strtoul0 ''99999999999999999999'' e = (ULONG_MAX, ERANGE)"
  by (simp add: strtoul0_def c_str_def NUL_def isspace_def strtoul_sign_def strtoul_base_def
      digit_val_def unat_ULONG_MAX)

lemma numeric_char_props:
  "isdigit ch \<or> ch = CHR ''x'' \<Longrightarrow> \<not> isspace ch \<and> ch \<noteq> CHR ''-'' \<and> ch \<noteq> CHR ''+''"
  by (auto simp: isdigit_def isspace_def)

lemma strtoul0_numeric:
  assumes "list_all (\<lambda>ch. isdigit ch \<or> ch = CHR ''x'') (c_str s)"
  shows "strtoul0 s e =
     (if parsed_number s > unat ULONG_MAX then (ULONG_MAX, ERANGE)
      else (of_nat (parsed_number s), e))"
proof -
  have 1: "dropWhile isspace (c_str s) = c_str s"
    using assms numeric_char_props by (cases "c_str s") auto
  have 2: "strtoul_sign (c_str s) = (False, c_str s)"
    using assms numeric_char_props by (cases "c_str s") (auto simp: strtoul_sign_def)
  show ?thesis
    by (simp add: strtoul0_def 1 2 parsed_number_def split: prod.splits)
qed

lemma parse_getrlimit_fails:
  "getrlimit env res = None \<Longrightarrow>
     cmdlineParseRLimit env res optarg mul = Inl (Fatal ''getrlimit(%d)'')"
  by (simp add: cmdlineParseRLimit_def)

lemma parse_in_range:
  assumes lim: "getrlimit env res = Some cur"
    and k: "map tolower (c_str optarg) \<noteq> ''max''" "map tolower (c_str optarg) \<noteq> ''def''"
    and num: "list_all (\<lambda>ch. isdigit ch \<or> ch = CHR ''x'') (c_str optarg)"
    and fits: "parsed_number optarg < 2 ^ 64"
    and b: "parsed_number optarg * unat mul < 2 ^ 64 - 1"
  shows "cmdlineParseRLimit env res optarg mul = Inr (of_nat (parsed_number optarg * unat mul))"
proof -
  have s: "strtoul0 optarg (errno env) = (of_nat (parsed_number optarg), errno env)"
    using fits by (simp add: strtoul0_numeric [OF num] unat_ULONG_MAX)
  have r: "cmdlineParseRLimit env res optarg mul =
          (if of_nat (parsed_number optarg) * mul = ULONG_MAX \<and> errno env \<noteq> 0
           then Inl (Fatal ''strtoul('%s', 0)'')
           else Inr (of_nat (parsed_number optarg) * mul))"
    using parse_numeric [OF lim k num, of mul] by (simp only: s fst_conv snd_conv)
  note e = decimal_times_unit(1) [OF b] and n = decimal_times_unit(2) [OF b]
  have "cmdlineParseRLimit env res optarg mul = Inr (of_nat (parsed_number optarg) * mul)"
    by (simp only: r n simp_thms if_False)
  then show ?thesis
    by (simp only: e)
qed

lemma parse_overflow:
  assumes lim: "getrlimit env res = Some cur"
    and k: "map tolower (c_str optarg) \<noteq> ''max''" "map tolower (c_str optarg) \<noteq> ''def''"
    and num: "list_all (\<lambda>ch. isdigit ch \<or> ch = CHR ''x'') (c_str optarg)"
    and big: "2 ^ 64 - 1 < parsed_number optarg"
  shows "cmdlineParseRLimit env res optarg 1 = Inl (Fatal ''strtoul('%s', 0)'')"
proof -
  have s: "strtoul0 optarg (errno env) = (ULONG_MAX, ERANGE)"
    using big by (simp add: strtoul0_numeric [OF num] unat_ULONG_MAX)
  show ?thesis
    using parse_numeric [OF lim k num, of 1] by (simp add: s ERANGE_def)
qed

lemma parsed_decimal:
  assumes "list_all isdigit s" and "s \<noteq> []" and "hd s \<noteq> CHR ''0''"
  shows "parsed_number s = decimal_value s"
proof -
  from assms obtain ch r where s: "s = ch # r" and ch: "ch \<noteq> CHR ''0''"
    by (cases s) auto
  have "strtoul_base s = (10, s)"
    using s ch by (simp add: strtoul_base_def)
  then show ?thesis
    using assms(1)
    by (simp add: parsed_number_def c_str_digits strtoul_digits_decimal decimal_value_def)
qed

lemma ex_parsed_16: "parsed_number ''16'' = 16"
  by (simp add: parsed_number_def c_str_def NUL_def strtoul_base_def digit_val_def)

lemma ex_parsed_hex: "parsed_number ''0x10'' = 16"
  by (simp add: parsed_number_def c_str_def NUL_def strtoul_base_def digit_val_def)

lemma ex_parsed_big: "parsed_number ''99999999999999999999'' = 99999999999999999999"
  by (simp add: parsed_number_def c_str_def NUL_def strtoul_base_def digit_val_def)

text \<open>
  C6, as the code has it by design. When \<^verbatim>\<open>getrlimit\<close> fails the call is fatal.
  Otherwise a string equal to "max" up to the case of its letters resolves to the hard
  limit, and one equal to "def" up to case to the soft limit. Any other string all of
  whose characters are digits or x, whose number fits in 64 bits and whose product
  with the unit is below \<^verbatim>\<open>ULONG_MAX\<close>, resolves to that product; when its number
  does not fit in 64 bits and the unit is 1, the call is fatal. A string that is
  neither a keyword nor made of digits and x is fatal. A decimal numeral without a
  leading zero is such a numeric string, and its number is its decimal value. The unit
  passed for each option is 1024 * 1024 for address space, core, file size and stack
  and 1 for cpu, nofile and nproc.
\<close>

theorem cmdlineParseRLimit_resolves:
  fixes env res cur optarg mul c nsjconf
  defines "key \<equiv> map tolower (c_str optarg)"
    and "numeric \<equiv> list_all (\<lambda>ch. isdigit ch \<or> ch = CHR ''x'') (c_str optarg)"
  shows "(getrlimit env res = None \<longrightarrow>
        cmdlineParseRLimit env res optarg mul = Inl (Fatal ''getrlimit(%d)''))
   \<and> (getrlimit env res = Some cur \<and> key = ''max'' \<longrightarrow>
        cmdlineParseRLimit env res optarg mul = Inr (rlim_max cur))
   \<and> (getrlimit env res = Some cur \<and> key = ''def'' \<longrightarrow>
        cmdlineParseRLimit env res optarg mul = Inr (rlim_cur cur))
   \<and> (getrlimit env res = Some cur \<and> key \<noteq> ''max'' \<and> key \<noteq> ''def'' \<and> numeric
        \<and> parsed_number optarg < 2 ^ 64 \<and> parsed_number optarg * unat mul < 2 ^ 64 - 1 \<longrightarrow>
        cmdlineParseRLimit env res optarg mul = Inr (of_nat (parsed_number optarg * unat mul)))
   \<and> (getrlimit env res = Some cur \<and> key \<noteq> ''max'' \<and> key \<noteq> ''def'' \<and> numeric
        \<and> 2 ^ 64 - 1 < parsed_number optarg \<longrightarrow>
        cmdlineParseRLimit env res optarg 1 = Inl (Fatal ''strtoul('%s', 0)''))
   \<and> (getrlimit env res = Some cur \<and> key \<noteq> ''max'' \<and> key \<noteq> ''def'' \<and> \<not> numeric \<longrightarrow>
        cmdlineParseRLimit env res optarg mul =
          Inl (Fatal ''RLIMIT %d needs a numeric or 'max'/'def' value ('%s' provided)''))
   \<and> (list_all isdigit optarg \<and> optarg \<noteq> [] \<and> hd optarg \<noteq> CHR ''0'' \<longrightarrow>
        key \<noteq> ''max'' \<and> key \<noteq> ''def'' \<and> numeric
        \<and> parsed_number optarg = decimal_value optarg)
   \<and> cmdlineParse_rlimit env c optarg nsjconf =
        map_option
          (\<lambda>r. map_sum id (rl_update r nsjconf) (cmdlineParseRLimit env r optarg (rlimit_unit r)))
          (rlimit_option c)"
proof -
  have 0: "getrlimit env res = None \<longrightarrow>
        cmdlineParseRLimit env res optarg mul = Inl (Fatal ''getrlimit(%d)'')"
    by (rule impI) (erule parse_getrlimit_fails)
  have 1: "getrlimit env res = Some cur \<and> key = ''max'' \<longrightarrow>
        cmdlineParseRLimit env res optarg mul = Inr (rlim_max cur)"
    unfolding key_def by (intro impI, elim conjE) (rule parse_max)
  have 2: "getrlimit env res = Some cur \<and> key = ''def'' \<longrightarrow>
        cmdlineParseRLimit env res optarg mul = Inr (rlim_cur cur)"
    unfolding key_def by (intro impI, elim conjE) (rule parse_def)
  have 3: "getrlimit env res = Some cur \<and> key \<noteq> ''max'' \<and> key \<noteq> ''def'' \<and> numeric
        \<and> parsed_number optarg < 2 ^ 64 \<and> parsed_number optarg * unat mul < 2 ^ 64 - 1 \<longrightarrow>
        cmdlineParseRLimit env res optarg mul = Inr (of_nat (parsed_number optarg * unat mul))"
    unfolding key_def numeric_def by (intro impI, elim conjE) (rule parse_in_range)
  have 4: "getrlimit env res = Some cur \<and> key \<noteq> ''max'' \<and> key \<noteq> ''def'' \<and> numeric
        \<and> 2 ^ 64 - 1 < parsed_number optarg \<longrightarrow>
        cmdlineParseRLimit env res optarg 1 = Inl (Fatal ''strtoul('%s', 0)'')"
    unfolding key_def numeric_def by (intro impI, elim conjE) (rule parse_overflow)
  have 5: "getrlimit env res = Some cur \<and> key \<noteq> ''max'' \<and> key \<noteq> ''def'' \<and> \<not> numeric \<longrightarrow>
        cmdlineParseRLimit env res optarg mul =
          Inl (Fatal ''RLIMIT %d needs a numeric or 'max'/'def' value ('%s' provided)'')"
    unfolding key_def numeric_def by (intro impI, elim conjE) (rule parse_other)
  have 6: "list_all isdigit optarg \<and> optarg \<noteq> [] \<and> hd optarg \<noteq> CHR ''0'' \<longrightarrow>
        key \<noteq> ''max'' \<and> key \<noteq> ''def'' \<and> numeric
        \<and> parsed_number optarg = decimal_value optarg"
  proof (intro impI, elim conjE)
    assume dg: "list_all isdigit optarg" and nn: "optarg \<noteq> []" and h: "hd optarg \<noteq> CHR ''0''"
    have "numeric"
      unfolding numeric_def using dg by (simp add: c_str_digits list_all_iff)
    moreover have "key \<noteq> ''max''" "key \<noteq> ''def''"
      unfolding key_def using digits_not_keyword [OF dg] by simp_all
    moreover have "parsed_number optarg = decimal_value optarg"
      using dg nn h by (rule parsed_decimal)
    ultimately show "key \<noteq> ''max'' \<and> key \<noteq> ''def'' \<and> numeric
        \<and> parsed_number optarg = decimal_value optarg"
      by simp
  qed
  show ?thesis
    apply (intro conjI)
           apply (rule 0)
          apply (rule 1)
         apply (rule 2)
        apply (rule 3)
       apply (rule 4)
      apply (rule 5)
     apply (rule 6)
    apply (rule parse_rlimit_table)
    done
qed

theorem cmdlineParseRLimit_resolves_witness:
  "getrlimit (ex_cmdline_env 0) RLIMIT_AS = Some \<lparr>rlim_cur = 1024, rlim_max = 4096\<rparr>
   \<and> getrlimit ex_cmdline_env_fail RLIMIT_AS = None
   \<and> cmdlineParseRLimit ex_cmdline_env_fail RLIMIT_AS ''16'' (1024 * 1024) =
       Inl (Fatal ''getrlimit(%d)'')
   \<and> cmdlineParseRLimit (ex_cmdline_env 0) RLIMIT_AS ''16'' (1024 * 1024) = Inr 16777216
   \<and> cmdlineParseRLimit (ex_cmdline_env 0) RLIMIT_AS ''0x10'' (1024 * 1024) = Inr 16777216
   \<and> cmdlineParseRLimit (ex_cmdline_env 0) RLIMIT_AS ''Max'' (1024 * 1024) = Inr 4096
   \<and> cmdlineParseRLimit (ex_cmdline_env 0) RLIMIT_AS ''def'' (1024 * 1024) = Inr 1024
   \<and> cmdlineParseRLimit (ex_cmdline_env 0) RLIMIT_AS ''99999999999999999999'' 1 =
       Inl (Fatal ''strtoul('%s', 0)'')
   \<and> cmdlineParseRLimit (ex_cmdline_env 0) RLIMIT_AS ''1g'' (1024 * 1024) =
       Inl (Fatal ''RLIMIT %d needs a numeric or 'max'/'def' value ('%s' provided)'')"
proof -
  note th = cmdlineParseRLimit_resolves [where env = "ex_cmdline_env 0" and res = RLIMIT_AS
      and cur = "\<lparr>rlim_cur = 1024, rlim_max = 4096\<rparr>" and mul = "1024 * 1024" and c = 0]
  note ev = c_str_def NUL_def tolower_def char_of_eq isdigit_def ex_getrlimit
  have f: "getrlimit ex_cmdline_env_fail RLIMIT_AS = None"
    by (simp add: ex_cmdline_env_fail_def)
  have z: "cmdlineParseRLimit ex_cmdline_env_fail RLIMIT_AS ''16'' (1024 * 1024) =
       Inl (Fatal ''getrlimit(%d)'')"
    using cmdlineParseRLimit_resolves [where env = ex_cmdline_env_fail and res = RLIMIT_AS
        and optarg = "''16''" and mul = "1024 * 1024" and c = 0] f
    by simp
  have a: "cmdlineParseRLimit (ex_cmdline_env 0) RLIMIT_AS ''16'' (1024 * 1024) = Inr 16777216"
    using th [where optarg = "''16''"] by (simp add: ev ex_parsed_16)
  have x: "cmdlineParseRLimit (ex_cmdline_env 0) RLIMIT_AS ''0x10'' (1024 * 1024) = Inr 16777216"
    using th [where optarg = "''0x10''"] by (simp add: ev ex_parsed_hex)
  have b: "cmdlineParseRLimit (ex_cmdline_env 0) RLIMIT_AS ''Max'' (1024 * 1024) = Inr 4096"
    using th [where optarg = "''Max''"] by (simp add: ev)
  have c: "cmdlineParseRLimit (ex_cmdline_env 0) RLIMIT_AS ''def'' (1024 * 1024) = Inr 1024"
    using th [where optarg = "''def''"] by (simp add: ev)
  have o: "cmdlineParseRLimit (ex_cmdline_env 0) RLIMIT_AS ''99999999999999999999'' 1 =
       Inl (Fatal ''strtoul('%s', 0)'')"
    using th [where optarg = "''99999999999999999999''"] by (simp add: ev ex_parsed_big)
  have d: "cmdlineParseRLimit (ex_cmdline_env 0) RLIMIT_AS ''1g'' (1024 * 1024) =
       Inl (Fatal ''RLIMIT %d needs a numeric or 'max'/'def' value ('%s' provided)'')"
    using th [where optarg = "''1g''"] by (simp add: ev)
  from f z a x b c o d ex_getrlimit show ?thesis
    by simp
qed

text \<open>
  The claim C6 as it is worded fails on two inputs. "MAX" is neither the string "max"
  nor "def" nor accepted by the number test, and yet it resolves to the hard limit
  instead of being fatal. The numeric string of twenty nines, with the unit 1, does
  not resolve to a number: \<^verbatim>\<open>strtoul\<close> overflows and the call is fatal.
\<close>

theorem cmdlineParseRLimit_keyword_case:
  "cmdlineParseRLimit (ex_cmdline_env 0) RLIMIT_AS ''MAX'' (1024 * 1024) = Inr 4096
   \<and> ''MAX'' \<noteq> ''max'' \<and> ''MAX'' \<noteq> ''def'' \<and> \<not> cmdlineIsANumber ''MAX''
   \<and> cmdlineIsANumber ''99999999999999999999''
   \<and> cmdlineParseRLimit (ex_cmdline_env 0) RLIMIT_CPU ''99999999999999999999'' 1 =
       Inl (Fatal ''strtoul('%s', 0)'')"
proof -
  have a: "cmdlineParseRLimit (ex_cmdline_env 0) RLIMIT_AS ''MAX'' (1024 * 1024) = Inr 4096"
    using parse_max [OF ex_getrlimit, of "''MAX''" 0 RLIMIT_AS "1024 * 1024"]
    by (simp add: c_str_def NUL_def tolower_def char_of_eq)
  have b: "\<not> cmdlineIsANumber ''MAX''"
    by (simp add: cmdlineIsANumber_list_all c_str_def NUL_def isdigit_def)
  have c: "cmdlineIsANumber ''99999999999999999999''"
    by (simp add: cmdlineIsANumber_list_all c_str_def NUL_def isdigit_def)
  have d: "cmdlineParseRLimit (ex_cmdline_env 0) RLIMIT_CPU ''99999999999999999999'' 1 =
       Inl (Fatal ''strtoul('%s', 0)'')"
    using parse_numeric [OF ex_getrlimit, of "''99999999999999999999''" 0 RLIMIT_CPU 1]
    by (simp add: c_str_def NUL_def tolower_def char_of_eq isdigit_def ex_overflow ERANGE_def)
  from a b c d show ?thesis
    by simp
qed

subsection \<open>The events of the sub-functions\<close>

lemmas clone_consts = SIGCHLD_def CLONE_NEWNS_def CLONE_NEWUTS_def CLONE_NEWIPC_def
  CLONE_NEWUSER_def CLONE_NEWPID_def CLONE_NEWNET_def

lemma no_insert_simps:
  "no_insert []"
  "no_insert (e # es) = (\<not> is_insert e \<and> no_insert es)"
  "no_insert (xs @ ys) = (no_insert xs \<and> no_insert ys)"
  by (auto simp: no_insert_def)

lemma netConnToText_logs:
  "netConnToText os fd r s w = (txt, a, ev) \<Longrightarrow> list_all is_log ev"
  by (auto simp: netConnToText_def Let_def split: if_splits option.splits)

lemma netLimitConns_logs:
  "netLimitConns os c fd = (ok, ev) \<Longrightarrow> list_all is_log ev"
  by (auto simp: netLimitConns_def Let_def split: if_splits prod.splits dest: netConnToText_logs)

lemma is_log_not_others:
  "is_log e \<Longrightarrow> \<not> is_insert e \<and> \<not> is_netattach e \<and> \<not> is_clone e"
  by (cases e) simp_all

lemma logs_not_others:
  "list_all is_log ev \<Longrightarrow>
     list_all (\<lambda>e. \<not> is_insert e) ev \<and> list_all (\<lambda>e. \<not> is_netattach e) ev
     \<and> list_all (\<lambda>e. \<not> is_clone e) ev"
  by (induction ev) (auto dest: is_log_not_others)

lemma netCloneNetIfaces_events:
  "netCloneNetIfaces os c p = (ok, ev) \<Longrightarrow>
     list_all (\<lambda>e. \<not> is_insert e) ev \<and> list_all (\<lambda>e. \<not> is_clone e) ev"
  by (auto simp: netCloneNetIfaces_def Let_def split: if_splits option.splits)

lemma read_events:
  "subprocRunChild_read rs = (ev, b) \<Longrightarrow>
     list_all (\<lambda>e. \<not> is_insert e) ev \<and> list_all (\<lambda>e. \<not> is_clone e) ev
     \<and> list_all (\<lambda>e. \<not> is_netattach e) ev"
  by (induction rs arbitrary: ev b) (auto split: if_splits prod.splits)

lemma read_ended:
  "subprocRunChild_read rs = (ev, True) \<Longrightarrow>
     \<exists>pre r. ev = pre @ [Read r] \<and> read_sz r \<le> 0"
proof (induction rs arbitrary: ev)
  case Nil
  then show ?case by simp
next
  case (Cons r rs)
  show ?case
  proof (cases "read_sz r > 0")
    case True
    obtain ev' b where e: "subprocRunChild_read rs = (ev', b)"
      by (cases "subprocRunChild_read rs")
    with Cons.prems True have b: "b = True"
      and ev: "ev = Read r # LogDirectlyToFD (c_str (case r of RData bytes \<Rightarrow> bytes | _ \<Rightarrow> []))
                 # ev'"
      by auto
    from Cons.IH e b obtain pre r' where "ev' = pre @ [Read r']" "read_sz r' \<le> 0"
      by blast
    with ev show ?thesis
      by (metis append_Cons)
  next
    case False
    with Cons.prems have "ev = [] @ [Read r]" by auto
    with False show ?thesis by (metis not_less)
  qed
qed

lemma subprocNewProc_events:
  "subprocNewProc ce c a b d e = (ev, r) \<Longrightarrow>
     list_all (\<lambda>e. \<not> is_insert e) ev \<and> list_all (\<lambda>e. \<not> is_clone e) ev
     \<and> list_all (\<lambda>e. \<not> is_netattach e) ev"
  by (auto simp: subprocNewProc_def Let_def split: if_splits)

lemma subprocAdd_events:
  "subprocAdd os c p s = (c', ev) \<Longrightarrow>
     list_all (\<lambda>e. \<not> is_clone e) ev \<and> list_all (\<lambda>e. \<not> is_netattach e) ev"
  by (auto simp: subprocAdd_def Let_def split: option.splits prod.splits
      dest!: netConnToText_logs logs_not_others)

lemma subprocAdd_cases:
  "subprocAdd os c p s = (c', ev) \<Longrightarrow>
     (c' = c \<and> no_insert ev \<and> malloc_ret os = None)
     \<or> (\<exists>pre q. ev = pre @ [ListInsertHead q] \<and> no_insert pre
          \<and> c' = c\<lparr>pids := q # pids c\<rparr> \<and> pid q = p \<and> malloc_ret os \<noteq> None)"
  by (auto simp: subprocAdd_def Let_def no_insert_def split: option.splits prod.splits
      dest!: netConnToText_logs logs_not_others)

lemma not_clone_mem: "list_all (\<lambda>e. \<not> is_clone e) ev \<Longrightarrow> Clone f r \<notin> set ev"
  by (auto simp: list_all_iff)

lemma not_insert_netattach:
  "list_all (\<lambda>e. \<not> is_netattach e) ev \<Longrightarrow> list_all (\<lambda>e. \<not> is_insert e) ev \<Longrightarrow>
     list_all (\<lambda>e. \<not> is_insert e \<and> \<not> is_netattach e) ev"
  by (simp add: list_all_iff)

lemma clone_event:
  assumes "Clone f r \<in> set (rr_trace (subprocRunChild os c fi fo fe))"
  shows "f = clone_flags c \<and> r = clone_ret os"
proof -
  obtain ok ev0 where a: "netLimitConns os c fi = (ok, ev0)"
    by (cases "netLimitConns os c fi")
  obtain evc e where b: "subprocNewProc (child os) c fi fo fe (snd (pipe2_fds os)) = (evc, e)"
    by (cases "subprocNewProc (child os) c fi fo fe (snd (pipe2_fds os))")
  obtain okn evn where d: "netCloneNetIfaces os c (clone_ret os) = (okn, evn)"
    by (cases "netCloneNetIfaces os c (clone_ret os)")
  obtain evr ended where g: "subprocRunChild_read (pipe_reads os) = (evr, ended)"
    by (cases "subprocRunChild_read (pipe_reads os)")
  obtain c' eva where h: "subprocAdd os c (clone_ret os) fi = (c', eva)"
    by (cases "subprocAdd os c (clone_ret os) fi")
  obtain cs w evt where k: "netConnToText os fi True 64 False = (cs, w, evt)"
    by (cases "netConnToText os fi True 64 False") auto
  note nc = not_clone_mem
  have n0: "Clone f r \<notin> set ev0"
    using netLimitConns_logs [OF a] logs_not_others nc by blast
  have n1: "Clone f r \<notin> set evc"
    using subprocNewProc_events [OF b] nc by blast
  have n2: "Clone f r \<notin> set evn"
    using netCloneNetIfaces_events [OF d] nc by blast
  have n3: "Clone f r \<notin> set evr"
    using read_events [OF g] nc by blast
  have n4: "Clone f r \<notin> set eva"
    using subprocAdd_events [OF h] nc by blast
  have n5: "Clone f r \<notin> set evt"
    using netConnToText_logs [OF k] logs_not_others nc by blast
  from assms show ?thesis
    by (simp add: subprocRunChild_def Let_def a b d g h k n0 n1 n2 n3 n4 n5 split: if_splits)
qed

lemma subprocRunChild_parent:
  assumes "netLimitConns os c fi = (True, ev0)" and "pipe2_ok os"
    and "clone_ret os \<noteq> 0" and "clone_ret os \<noteq> - 1"
    and "netCloneNetIfaces os c (clone_ret os) = (okn, evn)"
    and "subprocRunChild_read (pipe_reads os) = (evr, True)"
    and "subprocAdd os c (clone_ret os) fi = (c', eva)"
    and "netConnToText os fi True 64 False = (cs, w, evt)"
  shows "subprocRunChild os c fi fo fe =
     \<lparr>rr_conf = c',
      rr_trace = ev0 @ [Pipe2 True, Clone (clone_flags c) (clone_ret os),
                        NetCloneNetIfaces (clone_ret os)] @ evn @
                 (if okn = False
                  then [Log ERROR ''Couldn't create and put MACVTAP interface into NS of PID''
                          [clone_ret os]]
                  else []) @
                 evr @ [Close (fst (pipe2_fds os))] @ eva @ evt @
                 [Log INFO ''PID: %d about to execute '%s' for %s'' [clone_ret os]],
      rr_outcome = Returned\<rparr>"
  using assms by (simp add: subprocRunChild_def Let_def)

lemma subprocRemove_loop_None:
  "(subprocRemove_loop p ps = None) = (\<forall>q \<in> set ps. pid q \<noteq> p)"
  by (induction ps) (auto split: option.splits)

lemma tlimit_kill_pid:
  "Kill p sg \<in> set (subprocReap_tlimit lim now ps) \<Longrightarrow> \<exists>q \<in> set ps. pid q = p"
  by (induction ps) (auto simp: Let_def split: if_splits)

lemma tlimit_zero: "subprocReap_tlimit 0 now ps = []"
  by (induction ps) simp_all

lemma tlimit_kills:
  "lim \<noteq> 0 \<Longrightarrow>
     filter is_kill (subprocReap_tlimit lim now ps) =
       concat (map (\<lambda>p. [Kill (pid p) SIGCONT, Kill (pid p) SIGKILL])
                 (filter (\<lambda>p. now - start p \<ge> lim) ps))"
  by (induction ps) (simp_all add: Let_def)

lemma tlimit_no_roster_event:
  "list_all (\<lambda>e. \<not> is_insert e \<and> \<not> is_remove e) (subprocReap_tlimit lim now ps)"
  by (induction ps) (auto simp: Let_def)

lemma reap_nothing:
  "waitpid_rets os = [] \<Longrightarrow>
     subprocReap os c = (c, subprocReap_tlimit (tlimit c) (time_now os) (pids c))"
  by (simp add: subprocReap_def)

lemma reap_cycles:
  "list_all (\<lambda>os. waitpid_rets os = []) oss \<Longrightarrow> fold (\<lambda>os c. fst (subprocReap os c)) oss c = c"
  by (induction oss) (simp_all add: reap_nothing)

subsection \<open>The concrete inputs, evaluated\<close>

lemma show_12345: "show_nat 12345 = ''12345''"
  by (simp add: show_nat.simps)

lemma ex_text:
  "netConnToText (ex_os True cl rs m) fd True 64 w =
     (''2001:db8::2:12345'', if w then Some (ex_addr 2) else None, [])"
  by (simp add: netConnToText_def netIsSocket_def ex_os_def ex_addr_def snprintf_def ntohs_def
      show_12345)

lemma ex_text_standalone:
  "netConnToText (ex_os False cl rs m) fd True 64 w = (''[STANDALONE_MODE]'', None, [])"
  by (simp add: netConnToText_def netIsSocket_def ex_os_def snprintf_def)

lemma ex_limit:
  "netLimitConns (ex_os sock cl rs m) (ex_conf 0 ps) fd = (True, [])"
  by (simp add: netLimitConns_def ex_conf_def)

lemma ex_ifaces:
  "netCloneNetIfaces os (ex_conf cap ps) p = (True, [])"
  by (simp add: netCloneNetIfaces_def ex_conf_def)

lemma ex_flags: "clone_flags (ex_conf cap ps) = 0x7C020011"
  by (simp add: ex_conf_def clone_flags_def clone_consts)

lemma ex_os_sel:
  "pipe2_ok (ex_os sock cl rs m)" "pipe2_fds (ex_os sock cl rs m) = (5, 6)"
  "clone_ret (ex_os sock cl rs m) = cl" "pipe_reads (ex_os sock cl rs m) = rs"
  "malloc_ret (ex_os sock cl rs m) = m" "time_now (ex_os sock cl rs m) = 1000"
  "sizeof_remote_txt (ex_os sock cl rs m) = 64" "child (ex_os sock cl rs m) = ex_child"
  "waitpid_rets (ex_os sock cl rs m) = []"
  "getpeername (ex_os sock cl rs m) fd = Some (ex_addr 2)"
  "stack_addr (ex_os sock cl rs m) = remote_addr ex_block"
  by (simp_all add: ex_os_def)

lemma ex_conf_sel:
  "pids (ex_conf cap ps) = ps" "max_conns_per_ip (ex_conf cap ps) = cap"
  "tlimit (ex_conf cap ps) = 600"
  "(ex_conf cap ps)\<lparr>pids := ps'\<rparr> = ex_conf cap ps'"
  by (simp_all add: ex_conf_def)

lemma ex_run:
  "subprocRunChild (ex_os True 4242 [r] (Some ex_block)) (ex_conf 0 []) 7 7 7 =
   (if read_sz r > 0 then
      \<lparr>rr_conf = ex_conf 0 [],
       rr_trace = [Pipe2 True, Clone 0x7C020011 4242, NetCloneNetIfaces 4242, Read r,
                   LogDirectlyToFD (c_str (case r of RData b \<Rightarrow> b | _ \<Rightarrow> []))],
       rr_outcome = Blocked\<rparr>
    else
      \<lparr>rr_conf = ex_conf 0 [\<lparr>pid = 4242, start = 1000, remote_txt = ''2001:db8::2:12345'',
                               remote_addr = ex_addr 2\<rparr>],
       rr_trace = [Pipe2 True, Clone 0x7C020011 4242, NetCloneNetIfaces 4242, Read r, Close 5,
                   ListInsertHead \<lparr>pid = 4242, start = 1000,
                                   remote_txt = ''2001:db8::2:12345'',
                                   remote_addr = ex_addr 2\<rparr>,
                   Log INFO ''PID: %d about to execute '%s' for %s'' [4242]],
       rr_outcome = Returned\<rparr>)"
  by (simp add: subprocRunChild_def ex_limit ex_ifaces ex_flags ex_text Let_def subprocAdd_def
      ex_os_sel ex_conf_sel ex_block_def)

subsection \<open>The rate limiter\<close>

lemma memcmp_one_byte:
  "(memcmp (a # as) (b # bs) sizeof_s6_addr_elem = 0) = (a = b)"
proof -
  have "memcmp as bs 0 = 0"
    by (cases as; cases bs) simp_all
  moreover have "(uint a = uint b) = (a = b)"
    by (rule word_uint_eq_iff [symmetric])
  ultimately show ?thesis
    by (simp add: sizeof_s6_addr_elem_def)
qed

text \<open>
  C1 does not hold of the code. With a cap of 1 and a roster holding one child of the
  peer 2001:db8::1, a connection from 2001:db8::2 is refused by \<open>netLimitConns\<close>,
  although the two 16-byte addresses differ and the rate limiter of the specification
  allows the connection: the size given to \<^verbatim>\<open>memcmp\<close> is that of one element of
  \<^verbatim>\<open>s6_addr\<close>, so only the first byte of the two addresses is compared.
\<close>

theorem netLimitConns_first_byte_only:
  "netLimitConns (ex_os True 4242 [REOF] (Some ex_block)) (ex_conf 1 [ex_record 4000 1]) 7 =
     (False,
      [Log WARNING ''Rejecting connection from '%s', max_conns_per_ip limit reached: %u'' [1]])
   \<and> getpeername (ex_os True 4242 [REOF] (Some ex_block)) 7 = Some (ex_addr 2)
   \<and> sin6_addr (ex_addr 2) \<noteq> sin6_addr (remote_addr (ex_record 4000 1))
   \<and> rate_limit_spec (sin6_addr (ex_addr 2)) [ex_record 4000 1] 1"
  by (simp add: netLimitConns_def ex_text ex_os_sel)
    (simp add: ex_conf_def ex_record_def ex_addr_def sizeof_s6_addr_elem_def rate_limit_spec_def)

subsection \<open>The child builder\<close>

text \<open>
  C2. The child calls the containment steps in the fixed order prepare environment,
  set up descriptors, mount, drop privileges, set limits, close-on-exec, seccomp,
  exec: the steps it calls are those of the order up to and including the first that
  fails. When every step and the exec succeed the process image is replaced by the
  command; in every other case the child exits with status 1. The function has no
  other end.
\<close>

theorem subprocNewProc_order:
  "filter is_step (fst (subprocNewProc ce c fi fo fe pfd)) =
     map Step (takeWhile (step_ok ce) containment_order
               @ take 1 (dropWhile (step_ok ce) containment_order))
   \<and> snd (subprocNewProc ce c fi fo fe pfd) =
     (if list_all (step_ok ce) containment_order
      then Execed (case argv c of [] \<Rightarrow> [] | a # _ \<Rightarrow> a) (argv c)
             (if keep_env c then Some (environ ce) else None)
      else Exit 1)"
proof -
  consider
      (a) "\<not> containPrepareEnv ce"
    | (b) "containPrepareEnv ce" "\<not> containSetupFD ce"
    | (c) "containPrepareEnv ce" "containSetupFD ce" "\<not> containMountFS ce"
    | (d) "containPrepareEnv ce" "containSetupFD ce" "containMountFS ce"
          "\<not> containDropPrivs ce"
    | (e) "containPrepareEnv ce" "containSetupFD ce" "containMountFS ce" "containDropPrivs ce"
          "\<not> containSetLimits ce"
    | (f) "containPrepareEnv ce" "containSetupFD ce" "containMountFS ce" "containDropPrivs ce"
          "containSetLimits ce" "\<not> containMakeFdsCOE ce"
    | (g) "containPrepareEnv ce" "containSetupFD ce" "containMountFS ce" "containDropPrivs ce"
          "containSetLimits ce" "containMakeFdsCOE ce" "\<not> sandboxApply ce"
    | (h) "containPrepareEnv ce" "containSetupFD ce" "containMountFS ce" "containDropPrivs ce"
          "containSetLimits ce" "containMakeFdsCOE ce" "sandboxApply ce"
    by blast
  then show ?thesis
    by cases (simp_all add: subprocNewProc_def containment_order_def Let_def)
qed

theorem subprocNewProc_order_witness:
  "snd (subprocNewProc ex_child (ex_conf 0 []) 0 1 2 6) =
     Execed ''/bin/cat'' [''/bin/cat''] None
   \<and> subprocNewProc (ex_child\<lparr>containMountFS := False\<rparr>) (ex_conf 0 []) 0 1 2 6 =
       ([Step ContainPrepareEnv, Step ContainSetupFD, Step ContainMountFS], Exit 1)
   \<and> snd (subprocNewProc (ex_child\<lparr>execve_ok := False\<rparr>) (ex_conf 0 []) 0 1 2 6) = Exit 1"
  using subprocNewProc_order [of ex_child "ex_conf 0 []" 0 1 2 6]
    subprocNewProc_order [of "ex_child\<lparr>containMountFS := False\<rparr>" "ex_conf 0 []" 0 1 2 6]
    subprocNewProc_order [of "ex_child\<lparr>execve_ok := False\<rparr>" "ex_conf 0 []" 0 1 2 6]
  by (simp add: subprocNewProc_def ex_child_def ex_conf_def)

subsection \<open>Spawning a child\<close>

text \<open>
  The order of the events of a spawn. In every run of \<open>subprocRunChild\<close>, either no
  record is inserted and the configuration is unchanged, or exactly one record is
  inserted, and then: \<^verbatim>\<open>clone\<close> has returned a pid that is neither 0 nor -1, the
  read loop on the log pipe has ended with a \<^verbatim>\<open>read\<close> that returned 0 or -1, the
  read end has been closed right after it, and only then comes the insertion, of a
  record with the pid of the child.
\<close>

theorem subprocRunChild_insert_after_drain:
  fixes os c fi fo fe
  defines "R \<equiv> subprocRunChild os c fi fo fe"
  shows "(no_insert (rr_trace R) \<and> rr_conf R = c)
     \<or> (\<exists>pre r mid p post.
          rr_trace R = pre @ [Read r, Close (fst (pipe2_fds os))] @ mid @ [ListInsertHead p] @ post
          \<and> read_sz r \<le> 0 \<and> no_insert pre \<and> no_insert mid \<and> no_insert post
          \<and> Clone (clone_flags c) (clone_ret os) \<in> set pre
          \<and> clone_ret os \<noteq> 0 \<and> clone_ret os \<noteq> - 1 \<and> pid p = clone_ret os
          \<and> rr_conf R = c\<lparr>pids := p # pids c\<rparr> \<and> rr_outcome R = Returned)"
proof -
  obtain ok ev0 where a: "netLimitConns os c fi = (ok, ev0)"
    by (cases "netLimitConns os c fi")
  obtain evc e where b: "subprocNewProc (child os) c fi fo fe (snd (pipe2_fds os)) = (evc, e)"
    by (cases "subprocNewProc (child os) c fi fo fe (snd (pipe2_fds os))")
  obtain okn evn where d: "netCloneNetIfaces os c (clone_ret os) = (okn, evn)"
    by (cases "netCloneNetIfaces os c (clone_ret os)")
  obtain evr ended where g: "subprocRunChild_read (pipe_reads os) = (evr, ended)"
    by (cases "subprocRunChild_read (pipe_reads os)")
  obtain c' eva where h: "subprocAdd os c (clone_ret os) fi = (c', eva)"
    by (cases "subprocAdd os c (clone_ret os) fi")
  obtain cs w evt where k: "netConnToText os fi True 64 False = (cs, w, evt)"
    by (cases "netConnToText os fi True 64 False") auto
  have n0: "no_insert ev0"
    using netLimitConns_logs [OF a] logs_not_others by (simp add: no_insert_def)
  have n1: "no_insert evc"
    using subprocNewProc_events [OF b] by (simp add: no_insert_def)
  have n2: "no_insert evn"
    using netCloneNetIfaces_events [OF d] by (simp add: no_insert_def)
  have n3: "no_insert evr"
    using read_events [OF g] by (simp add: no_insert_def)
  have n5: "no_insert evt"
    using netConnToText_logs [OF k] logs_not_others by (simp add: no_insert_def)
  note facts = a b d g h k n0 n1 n2 n3 n5 no_insert_simps
  show ?thesis
  proof (cases "ok \<and> pipe2_ok os \<and> clone_ret os \<noteq> 0 \<and> clone_ret os \<noteq> - 1 \<and> ended")
    case False
    then have "no_insert (rr_trace R) \<and> rr_conf R = c"
      by (auto simp: R_def subprocRunChild_def Let_def facts)
    then show ?thesis ..
  next
    case True
    define ev2 where "ev2 = ev0 @ [Pipe2 True, Clone (clone_flags c) (clone_ret os)] @
        [NetCloneNetIfaces (clone_ret os)] @ evn @
        (if okn = False
         then [Log ERROR ''Couldn't create and put MACVTAP interface into NS of PID''
                 [clone_ret os]]
         else [])"
    define tail where
      "tail = evt @ [Log INFO ''PID: %d about to execute '%s' for %s'' [clone_ret os]]"
    have ev2: "no_insert ev2" "Clone (clone_flags c) (clone_ret os) \<in> set ev2"
      by (simp_all add: ev2_def facts)
    have tl: "no_insert tail"
      by (simp add: tail_def facts)
    from True have "ended = True" by simp
    with g read_ended obtain pre' r where evr: "evr = pre' @ [Read r]" and r: "read_sz r \<le> 0"
      by blast
    from n3 evr have np: "no_insert pre'"
      by (simp add: no_insert_simps)
    have tr: "rr_trace R = ev2 @ evr @ [Close (fst (pipe2_fds os))] @ eva @ tail"
      and cf: "rr_conf R = c'" and oc: "rr_outcome R = Returned"
      using True by (simp_all add: R_def subprocRunChild_def Let_def facts ev2_def tail_def)
    from subprocAdd_cases [OF h] show ?thesis
    proof
      assume "c' = c \<and> no_insert eva \<and> malloc_ret os = None"
      with tr cf ev2 tl n3 have "no_insert (rr_trace R) \<and> rr_conf R = c"
        by (simp add: no_insert_simps)
      then show ?thesis ..
    next
      assume "\<exists>pre q. eva = pre @ [ListInsertHead q] \<and> no_insert pre
          \<and> c' = c\<lparr>pids := q # pids c\<rparr> \<and> pid q = clone_ret os \<and> malloc_ret os \<noteq> None"
      then obtain mid q where eva: "eva = mid @ [ListInsertHead q]" and nm: "no_insert mid"
        and c': "c' = c\<lparr>pids := q # pids c\<rparr>" and pq: "pid q = clone_ret os"
        by blast
      have "rr_trace R = (ev2 @ pre') @ [Read r, Close (fst (pipe2_fds os))] @ mid
              @ [ListInsertHead q] @ tail"
        by (simp add: tr evr eva)
      moreover have "no_insert (ev2 @ pre')"
        "Clone (clone_flags c) (clone_ret os) \<in> set (ev2 @ pre')"
        using ev2 np by (simp_all add: no_insert_simps)
      ultimately show ?thesis
        using r nm tl True cf c' pq oc by blast
    qed
  qed
qed

text \<open>
  On a path that inserts a record the parent closes one descriptor only, the read end
  of the log pipe: the write end \<^verbatim>\<open>pipefd[1]\<close> stays open in the parent (it is
  closed on the path of a failed \<^verbatim>\<open>clone\<close> only).
\<close>

lemma logs_not_close: "list_all is_log ev \<Longrightarrow> Close fd \<notin> set ev"
  by (auto simp: list_all_iff)

lemma netCloneNetIfaces_not_close:
  "netCloneNetIfaces os c p = (ok, ev) \<Longrightarrow> Close fd \<notin> set ev"
  by (auto simp: netCloneNetIfaces_def Let_def split: if_splits option.splits)

lemma read_not_close: "subprocRunChild_read rs = (ev, b) \<Longrightarrow> Close fd \<notin> set ev"
  by (induction rs arbitrary: ev b) (auto split: if_splits prod.splits)

lemma subprocAdd_not_close: "subprocAdd os c p s = (c', ev) \<Longrightarrow> Close fd \<notin> set ev"
  by (auto simp: subprocAdd_def Let_def split: option.splits prod.splits
      dest!: netConnToText_logs logs_not_close)

lemma subprocNewProc_not_insert:
  "subprocNewProc ce c a b d e = (ev, r) \<Longrightarrow> ListInsertHead p \<notin> set ev"
  using subprocNewProc_events [of ce c a b d e ev r] by (auto simp: list_all_iff)

lemma subprocRunChild_write_end_open:
  assumes ins: "ListInsertHead p \<in> set (rr_trace (subprocRunChild os c fi fo fe))"
    and cl: "Close fd \<in> set (rr_trace (subprocRunChild os c fi fo fe))"
  shows "fd = fst (pipe2_fds os)"
proof -
  obtain ok ev0 where a: "netLimitConns os c fi = (ok, ev0)"
    by (cases "netLimitConns os c fi")
  obtain evc e where b: "subprocNewProc (child os) c fi fo fe (snd (pipe2_fds os)) = (evc, e)"
    by (cases "subprocNewProc (child os) c fi fo fe (snd (pipe2_fds os))")
  obtain okn evn where d: "netCloneNetIfaces os c (clone_ret os) = (okn, evn)"
    by (cases "netCloneNetIfaces os c (clone_ret os)")
  obtain evr ended where g: "subprocRunChild_read (pipe_reads os) = (evr, ended)"
    by (cases "subprocRunChild_read (pipe_reads os)")
  obtain c' eva where h: "subprocAdd os c (clone_ret os) fi = (c', eva)"
    by (cases "subprocAdd os c (clone_ret os) fi")
  obtain cs w evt where k: "netConnToText os fi True 64 False = (cs, w, evt)"
    by (cases "netConnToText os fi True 64 False") auto
  have i0: "ListInsertHead p \<notin> set ev0"
    using netLimitConns_logs [OF a] by (auto simp: list_all_iff)
  have i1: "ListInsertHead p \<notin> set evc"
    using b by (rule subprocNewProc_not_insert)
  have i2: "ListInsertHead p \<notin> set evn"
    using netCloneNetIfaces_events [OF d] by (auto simp: list_all_iff)
  have i3: "ListInsertHead p \<notin> set evr"
    using read_events [OF g] by (auto simp: list_all_iff)
  have c0: "Close fd \<notin> set ev0"
    using netLimitConns_logs [OF a] by (rule logs_not_close)
  have c2: "Close fd \<notin> set evn"
    using d by (rule netCloneNetIfaces_not_close)
  have c3: "Close fd \<notin> set evr"
    using g by (rule read_not_close)
  have c4: "Close fd \<notin> set eva"
    using h by (rule subprocAdd_not_close)
  have c5: "Close fd \<notin> set evt"
    using netConnToText_logs [OF k] by (rule logs_not_close)
  from ins have path: "ok \<and> pipe2_ok os \<and> clone_ret os \<noteq> 0 \<and> clone_ret os \<noteq> - 1 \<and> ended"
    by (auto simp: subprocRunChild_def Let_def a b d g h k i0 i1 i2 i3 split: if_splits)
  with cl show ?thesis
    by (simp add: subprocRunChild_def Let_def a d g h k c0 c2 c3 c4 c5 split: if_splits)
qed

text \<open>
  C3 does not hold of the code. The read loop ends on any \<^verbatim>\<open>read\<close> that does not
  return a positive size. When the first \<^verbatim>\<open>read\<close> on the log pipe returns -1 the
  loop ends, the read end is closed and the record is inserted, and no \<^verbatim>\<open>read\<close>
  has returned end of file; the write end (descriptor 6 here) has not been closed by
  the parent either.
\<close>

theorem subprocRunChild_insert_without_eof:
  "rr_trace (subprocRunChild (ex_os True 4242 [RErr] (Some ex_block)) (ex_conf 0 []) 7 7 7) =
     [Pipe2 True, Clone 0x7C020011 4242, NetCloneNetIfaces 4242, Read RErr, Close 5,
      ListInsertHead \<lparr>pid = 4242, start = 1000, remote_txt = ''2001:db8::2:12345'',
                      remote_addr = ex_addr 2\<rparr>,
      Log INFO ''PID: %d about to execute '%s' for %s'' [4242]]
   \<and> Read REOF \<notin> set (rr_trace
         (subprocRunChild (ex_os True 4242 [RErr] (Some ex_block)) (ex_conf 0 []) 7 7 7))
   \<and> pipe2_fds (ex_os True 4242 [RErr] (Some ex_block)) = (5, 6)
   \<and> Close 6 \<notin> set (rr_trace
         (subprocRunChild (ex_os True 4242 [RErr] (Some ex_block)) (ex_conf 0 []) 7 7 7))"
  by (simp add: ex_run read_sz_def ex_os_sel)

text \<open>
  C7. The flags passed to \<^verbatim>\<open>clone\<close> are those \<open>clone_flags\<close> computes, which are
  \<^verbatim>\<open>SIGCHLD\<close> or-ed with the flags of the namespaces the configuration enables: each
  of the six namespace flags is absent from the mask exactly when its namespace is
  disabled, and outside the six flags the mask is \<^verbatim>\<open>SIGCHLD\<close>.
\<close>

theorem clone_flags_union:
  "(Clone f r \<in> set (rr_trace (subprocRunChild os c fi fo fe)) \<longrightarrow> f = clone_flags c)
   \<and> clone_flags c = foldl (OR) SIGCHLD (ns_flags c)
   \<and> (clone_flags c AND CLONE_NEWNET = 0) = (\<not> clone_newnet c)
   \<and> (clone_flags c AND CLONE_NEWUSER = 0) = (\<not> clone_newuser c)
   \<and> (clone_flags c AND CLONE_NEWNS = 0) = (\<not> clone_newns c)
   \<and> (clone_flags c AND CLONE_NEWPID = 0) = (\<not> clone_newpid c)
   \<and> (clone_flags c AND CLONE_NEWIPC = 0) = (\<not> clone_newipc c)
   \<and> (clone_flags c AND CLONE_NEWUTS = 0) = (\<not> clone_newuts c)
   \<and> clone_flags c AND NOT (CLONE_NEWNET OR CLONE_NEWUSER OR CLONE_NEWNS OR CLONE_NEWPID
                               OR CLONE_NEWIPC OR CLONE_NEWUTS) = SIGCHLD"
proof -
  have "Clone f r \<in> set (rr_trace (subprocRunChild os c fi fo fe)) \<longrightarrow> f = clone_flags c"
    using clone_event by blast
  moreover have "clone_flags c = foldl (OR) SIGCHLD (ns_flags c)"
    by (simp add: clone_flags_def ns_flags_def Let_def)
  moreover have "(clone_flags c AND CLONE_NEWNET = 0) = (\<not> clone_newnet c)"
    by (simp add: clone_flags_def Let_def clone_consts)
  moreover have "(clone_flags c AND CLONE_NEWUSER = 0) = (\<not> clone_newuser c)"
    by (simp add: clone_flags_def Let_def clone_consts)
  moreover have "(clone_flags c AND CLONE_NEWNS = 0) = (\<not> clone_newns c)"
    by (simp add: clone_flags_def Let_def clone_consts)
  moreover have "(clone_flags c AND CLONE_NEWPID = 0) = (\<not> clone_newpid c)"
    by (simp add: clone_flags_def Let_def clone_consts)
  moreover have "(clone_flags c AND CLONE_NEWIPC = 0) = (\<not> clone_newipc c)"
    by (simp add: clone_flags_def Let_def clone_consts)
  moreover have "(clone_flags c AND CLONE_NEWUTS = 0) = (\<not> clone_newuts c)"
    by (simp add: clone_flags_def Let_def clone_consts)
  moreover have "clone_flags c AND NOT (CLONE_NEWNET OR CLONE_NEWUSER OR CLONE_NEWNS
        OR CLONE_NEWPID OR CLONE_NEWIPC OR CLONE_NEWUTS) = SIGCHLD"
    by (simp add: clone_flags_def Let_def clone_consts)
  ultimately show ?thesis by blast
qed

theorem clone_flags_union_witness:
  "Clone 0x7C020011 4242
     \<in> set (rr_trace (subprocRunChild (ex_os True 4242 [REOF] (Some ex_block)) (ex_conf 0 [])
                        7 7 7))
   \<and> clone_flags (ex_conf 0 []) = 0x7C020011
   \<and> clone_flags ((ex_conf 0 [])\<lparr>clone_newnet := False\<rparr>) = 0x3C020011
   \<and> clone_flags ((ex_conf 0 [])\<lparr>clone_newnet := False\<rparr>) AND CLONE_NEWNET = 0"
  using clone_flags_union [of "0x7C020011" 4242 "ex_os True 4242 [REOF] (Some ex_block)"
      "ex_conf 0 []" 7 7 7]
    clone_flags_union [of 0 0 "ex_os True 4242 [REOF] (Some ex_block)"
      "(ex_conf 0 [])\<lparr>clone_newnet := False\<rparr>" 7 7 7]
  by (simp add: ex_run read_sz_def) (simp add: ex_conf_def clone_flags_def clone_consts)

text \<open>
  C8. When \<^verbatim>\<open>clone\<close> fails, \<open>subprocRunChild\<close> returns with the configuration, and
  so the roster, unchanged; no record is inserted and the net attacher is not called;
  and when the call reached \<^verbatim>\<open>clone\<close> (the connection was admitted and the pipe
  created), it ends by reporting the error and closing both ends of the log pipe.
\<close>

theorem subprocRunChild_clone_fails:
  fixes os c fi fo fe
  defines "R \<equiv> subprocRunChild os c fi fo fe"
  assumes fail: "clone_ret os = - 1"
  shows "rr_conf R = c \<and> rr_outcome R = Returned
     \<and> list_all (\<lambda>e. \<not> is_insert e \<and> \<not> is_netattach e) (rr_trace R)
     \<and> (fst (netLimitConns os c fi) \<and> pipe2_ok os \<longrightarrow>
          rr_trace R = snd (netLimitConns os c fi) @
            [Pipe2 True, Clone (clone_flags c) (- 1),
             Log ERROR ''clone(flags=%#x) failed'' [uint (clone_flags c)],
             Close (fst (pipe2_fds os)), Close (snd (pipe2_fds os))])"
proof -
  obtain ok ev0 where a: "netLimitConns os c fi = (ok, ev0)"
    by (cases "netLimitConns os c fi")
  have n0: "list_all (\<lambda>e. \<not> is_insert e \<and> \<not> is_netattach e) ev0"
    using netLimitConns_logs [OF a] logs_not_others not_insert_netattach by blast
  show ?thesis
    by (simp add: R_def subprocRunChild_def Let_def a fail n0)
qed

theorem subprocRunChild_clone_fails_witness:
  "clone_ret (ex_os True (- 1) [] None) = - 1
   \<and> subprocRunChild (ex_os True (- 1) [] None) (ex_conf 0 []) 7 7 7 =
       \<lparr>rr_conf = ex_conf 0 [],
        rr_trace = [Pipe2 True, Clone 0x7C020011 (- 1),
                    Log ERROR ''clone(flags=%#x) failed'' [0x7C020011], Close 5, Close 6],
        rr_outcome = Returned\<rparr>"
  using subprocRunChild_clone_fails [of "ex_os True (- 1) [] None" "ex_conf 0 []" 7 7 7]
  by (simp add: ex_os_sel ex_limit ex_flags subprocRunChild_def Let_def)

subsection \<open>The roster\<close>

text \<open>
  C5 does not hold of the code. In a standalone mode (the descriptor is not a socket)
  the record \<open>subprocAdd\<close> inserts has the text "[STANDALONE_MODE]", but its address
  bytes are those the block had when \<^verbatim>\<open>malloc\<close> returned it: \<open>netConnToText\<close>
  returns before it writes through \<open>addr_or_null\<close>, and nothing else writes them.
  With a block of bytes 0xAA the stored address is sixteen bytes 0xAA, not zeros.
\<close>

theorem subprocAdd_standalone_addr_uninitialised:
  "subprocAdd (ex_os False 4242 [REOF] (Some ex_block)) (ex_conf 0 []) 4242 0 =
     (ex_conf 0 [\<lparr>pid = 4242, start = 1000, remote_txt = ''[STANDALONE_MODE]'',
                    remote_addr = remote_addr ex_block\<rparr>],
      [ListInsertHead \<lparr>pid = 4242, start = 1000, remote_txt = ''[STANDALONE_MODE]'',
                       remote_addr = remote_addr ex_block\<rparr>])
   \<and> sin6_addr (remote_addr ex_block) = replicate 16 0xAA
   \<and> sin6_addr (remote_addr ex_block) \<noteq> replicate 16 0"
  by (simp add: subprocAdd_def ex_os_sel ex_text_standalone Let_def ex_conf_sel)
    (simp add: ex_block_def)

text \<open>
  C4. The loop that enforces the time limit sends nothing when the limit is 0;
  otherwise it sends \<^verbatim>\<open>SIGCONT\<close> and then \<^verbatim>\<open>SIGKILL\<close> to the pid of each record
  whose age, now minus start, is at least the limit, in the order of the roster, and
  no other signal. It inserts and removes no record: the roster \<open>subprocReap\<close> leaves
  is the one its \<^verbatim>\<open>waitpid\<close> loop left, so a call in which \<^verbatim>\<open>waitpid\<close> reports
  no child, and any number of such calls, leaves the configuration as it was.
\<close>

theorem enforce_time_limits_frame:
  fixes now ps lim os c oss
  shows "subprocReap_tlimit 0 now ps = []
   \<and> (lim \<noteq> 0 \<longrightarrow>
        filter is_kill (subprocReap_tlimit lim now ps) =
          concat (map (\<lambda>p. [Kill (pid p) SIGCONT, Kill (pid p) SIGKILL])
                    (filter (\<lambda>p. now - start p \<ge> lim) ps)))
   \<and> list_all (\<lambda>e. \<not> is_insert e \<and> \<not> is_remove e) (subprocReap_tlimit lim now ps)
   \<and> pids (fst (subprocReap os c)) = pids (fst (subprocReap_wait (waitpid_rets os) c))
   \<and> (waitpid_rets os = [] \<longrightarrow>
        subprocReap os c = (c, subprocReap_tlimit (tlimit c) (time_now os) (pids c)))
   \<and> (list_all (\<lambda>os. waitpid_rets os = []) oss \<longrightarrow>
        fold (\<lambda>os c. fst (subprocReap os c)) oss c = c)"
  using tlimit_zero tlimit_kills tlimit_no_roster_event reap_nothing reap_cycles
  by (simp add: subprocReap_def split: prod.splits)

theorem enforce_time_limits_frame_witness:
  "(60 :: int) \<noteq> 0
   \<and> filter is_kill (subprocReap_tlimit 60 1000 [ex_record 4000 1, ex_record 4001 2]) =
       [Kill 4000 SIGCONT, Kill 4000 SIGKILL, Kill 4001 SIGCONT, Kill 4001 SIGKILL]
   \<and> waitpid_rets (ex_os True 0 [] None) = []
   \<and> subprocReap (ex_os True 0 [] None) (ex_conf 0 [ex_record 4000 1]) =
       (ex_conf 0 [ex_record 4000 1], [])
   \<and> fold (\<lambda>os c. fst (subprocReap os c)) [ex_os True 0 [] None, ex_os True 0 [] None]
        (ex_conf 0 [ex_record 4000 1]) = ex_conf 0 [ex_record 4000 1]"
  using enforce_time_limits_frame [of 1000 "[ex_record 4000 1, ex_record 4001 2]" 60
      "ex_os True 0 [] None" "ex_conf 0 [ex_record 4000 1]"
      "[ex_os True 0 [] None, ex_os True 0 [] None]"]
  by (simp add: ex_os_sel ex_conf_sel) (simp add: ex_record_def)

text \<open>
  C10. When \<^verbatim>\<open>malloc\<close> fails in \<open>subprocAdd\<close> after a successful \<^verbatim>\<open>clone\<close>,
  \<open>subprocAdd\<close> only logs the error, and \<open>subprocRunChild\<close> returns with the
  configuration unchanged although \<^verbatim>\<open>clone\<close> has created the child. The roster then
  holds no record of the child's pid: the rate limiter decides as it did before, the
  time-limit loop sends the child no signal, and when the child is reaped
  \<open>subprocRemove\<close> finds no record, logs that the pid was not found and leaves the
  roster as it is.
\<close>

theorem subprocAdd_malloc_fails:
  fixes os c fi fo fe os' fd sg lim now
  defines "R \<equiv> subprocRunChild os c fi fo fe"
  assumes m: "malloc_ret os = None" and c0: "clone_ret os \<noteq> 0" and c1: "clone_ret os \<noteq> - 1"
    and adm: "fst (netLimitConns os c fi)" and pipe: "pipe2_ok os"
    and rd: "snd (subprocRunChild_read (pipe_reads os))"
    and fresh: "\<forall>p \<in> set (pids c). pid p \<noteq> clone_ret os"
  shows "subprocAdd os c (clone_ret os) fi = (c, [Log ERROR ''malloc'' []])
     \<and> rr_outcome R = Returned \<and> rr_conf R = c
     \<and> Clone (clone_flags c) (clone_ret os) \<in> set (rr_trace R)
     \<and> no_insert (rr_trace R)
     \<and> \<not> list_ex (\<lambda>p. pid p = clone_ret os) (pids (rr_conf R))
     \<and> netLimitConns os' (rr_conf R) fd = netLimitConns os' c fd
     \<and> Kill (clone_ret os) sg \<notin> set (subprocReap_tlimit lim now (pids (rr_conf R)))
     \<and> subprocRemove (rr_conf R) (clone_ret os) =
         (rr_conf R, [Log WARNING ''PID: %d not found (?)'' [clone_ret os]])"
proof -
  have add: "subprocAdd os c (clone_ret os) fi = (c, [Log ERROR ''malloc'' []])"
    using m by (simp add: subprocAdd_def)
  obtain ev0 where a: "netLimitConns os c fi = (True, ev0)"
    using adm by (cases "netLimitConns os c fi") auto
  obtain okn evn where d: "netCloneNetIfaces os c (clone_ret os) = (okn, evn)"
    by (cases "netCloneNetIfaces os c (clone_ret os)")
  obtain evr where g: "subprocRunChild_read (pipe_reads os) = (evr, True)"
    using rd by (cases "subprocRunChild_read (pipe_reads os)") auto
  obtain cs w evt where k: "netConnToText os fi True 64 False = (cs, w, evt)"
    by (cases "netConnToText os fi True 64 False") auto
  have n0: "no_insert ev0"
    using netLimitConns_logs [OF a] logs_not_others by (simp add: no_insert_def)
  have n2: "no_insert evn"
    using netCloneNetIfaces_events [OF d] by (simp add: no_insert_def)
  have n3: "no_insert evr"
    using read_events [OF g] by (simp add: no_insert_def)
  have n5: "no_insert evt"
    using netConnToText_logs [OF k] logs_not_others by (simp add: no_insert_def)
  note run = subprocRunChild_parent [OF a pipe c0 c1 d g add k, of fo fe]
  have conf: "rr_conf R = c" and out: "rr_outcome R = Returned"
    by (simp_all add: R_def run)
  have cl: "Clone (clone_flags c) (clone_ret os) \<in> set (rr_trace R)"
    by (simp add: R_def run)
  have ni: "no_insert (rr_trace R)"
    by (simp add: R_def run no_insert_simps n0 n2 n3 n5)
  have absent: "\<not> list_ex (\<lambda>p. pid p = clone_ret os) (pids (rr_conf R))"
    using fresh by (simp add: conf list_ex_iff)
  have kill: "Kill (clone_ret os) sg \<notin> set (subprocReap_tlimit lim now (pids (rr_conf R)))"
    using fresh tlimit_kill_pid [of "clone_ret os" sg lim now "pids c"] by (auto simp: conf)
  have "subprocRemove_loop (clone_ret os) (pids c) = None"
    using fresh by (simp add: subprocRemove_loop_None)
  then have rem: "subprocRemove (rr_conf R) (clone_ret os) =
         (rr_conf R, [Log WARNING ''PID: %d not found (?)'' [clone_ret os]])"
    by (simp add: subprocRemove_def conf)
  from add out conf cl ni absent kill rem show ?thesis
    by simp
qed

theorem subprocAdd_malloc_fails_witness:
  "malloc_ret (ex_os True 4242 [REOF] None) = None
   \<and> rr_conf (subprocRunChild (ex_os True 4242 [REOF] None) (ex_conf 0 []) 7 7 7) = ex_conf 0 []
   \<and> rr_outcome (subprocRunChild (ex_os True 4242 [REOF] None) (ex_conf 0 []) 7 7 7) = Returned
   \<and> Clone 0x7C020011 4242
        \<in> set (rr_trace (subprocRunChild (ex_os True 4242 [REOF] None) (ex_conf 0 []) 7 7 7))
   \<and> subprocRemove (ex_conf 0 []) 4242 =
       (ex_conf 0 [], [Log WARNING ''PID: %d not found (?)'' [4242]])"
  using subprocAdd_malloc_fails [of "ex_os True 4242 [REOF] None" "ex_conf 0 []" 7 7 7
      "ex_os True 4242 [REOF] None" 7 SIGKILL 600 1000]
  by (auto simp: ex_os_sel ex_limit read_sz_def ex_conf_sel ex_flags)

end
